theory Spec2Isabelle
  imports Complex_Main "HOL-Library.Word" "HOL-Library.Multiset" "HOL-Library.Monad_Syntax"
begin

unbundle bit_operations_syntax

section \<open>Conventions of the embedding\<close>

text \<open>
  The development embeds the energy-function registry of Jelly Bean World
  (\<^verbatim>\<open>energy_functions.h\<close>), its field sampler (\<^verbatim>\<open>jbw/gibbs_field.h\<close>) and
  three entry points of the Python binding (\<^verbatim>\<open>api/python/src/jbw/simulator.cpp\<close>).

  \<^item> \<^verbatim>\<open>unsigned int\<close> is a natural number below \<open>2 ^ 32\<close>; every operation of the
    source that can wrap is written with \<open>mod 2 ^ 32\<close>. \<^verbatim>\<open>uint32_t\<close> values that are
    hashed are \<open>32 word\<close>, tags of the \<^verbatim>\<open>uint64_t\<close> enumerations are \<open>64 word\<close>.
  \<^item> Coordinates (\<^verbatim>\<open>int64_t\<close>) are integers. Signed overflow is undefined in C++,
    so the model describes the runs in which no coordinate operation overflows.
  \<^item> \<^verbatim>\<open>float\<close> is read as a real number: rounding, infinities and NaN are not
    modelled, \<^verbatim>\<open>log\<close> is the natural logarithm, and \<^verbatim>\<open>log(0)\<close> is kept apart as
    minus infinity where the sampler compares against it.
  \<^item> A step that a C++ program must not perform (a read or write outside an
    array, a read of memory that was never written, an integer division by
    zero) makes the modelled function return \<open>None\<close>.
  \<^item> A random number generator is a state of some type \<open>'g\<close> together with
    a function \<open>'g \<Rightarrow> nat \<times> 'g\<close> that returns the next raw draw; nothing is
    assumed about it.
\<close>

definition UINT_MAX :: nat where
  "UINT_MAX = 2 ^ 32 - 1"

section \<open>Positions\<close>

text \<open>
  Modelled from the spec: \<^verbatim>\<open>position.h\<close> is not among the sources. The spec gives a
  position as a pair of signed 64-bit coordinates with vector addition,
  subtraction and squared length; the fields \<^verbatim>\<open>x\<close> and \<^verbatim>\<open>y\<close> are the selectors
  \<open>pos_x\<close> and \<open>pos_y\<close>.
\<close>

datatype position = position (pos_x: int) (pos_y: int)

definition pos_add :: "position \<Rightarrow> position \<Rightarrow> position" where
  "pos_add p q = position (pos_x p + pos_x q) (pos_y p + pos_y q)"

definition pos_sub :: "position \<Rightarrow> position \<Rightarrow> position" where
  "pos_sub p q = position (pos_x p - pos_x q) (pos_y p - pos_y q)"

definition pos_scale :: "position \<Rightarrow> nat \<Rightarrow> position" where
  "pos_scale p k = position (pos_x p * int k) (pos_y p * int k)"

definition squared_length :: "position \<Rightarrow> nat" where
  "squared_length p = nat (pos_x p * pos_x p + pos_y p * pos_y p)"

section \<open>Energy functions (\<^verbatim>\<open>energy_functions.h\<close>)\<close>

text \<open>
  \<^verbatim>\<open>args[i]\<close> on an argument array of \<open>length args\<close> floats. The functions below
  receive a bare \<^verbatim>\<open>const float*\<close>; the length is known to the caller only.
\<close>

definition arg :: "real list \<Rightarrow> nat \<Rightarrow> real option" where
  "arg args i = (if i < length args then Some (args ! i) else None)"

text \<open>The cast \<^verbatim>\<open>(uint32_t)\<close> of a float that is not below \<open>-1\<close>.\<close>

definition float_to_uint32 :: "real \<Rightarrow> 32 word" where
  "float_to_uint32 r = word_of_nat (nat \<lfloor>r\<rfloor>)"

subsection \<open>Intensity functions\<close>

definition zero_intensity_fn :: "position \<Rightarrow> real list \<Rightarrow> real option" where
  "zero_intensity_fn pos args = Some 0"

definition constant_intensity_fn :: "position \<Rightarrow> real list \<Rightarrow> real option" where
  "constant_intensity_fn pos args = arg args 0"

definition murmurhash32_mix32 :: "32 word \<Rightarrow> 32 word" where
  "murmurhash32_mix32 x0 =
     (let x1 = x0 XOR drop_bit 16 x0;
          x2 = x1 * 0x45d9f3b;
          x3 = x2 XOR drop_bit 16 x2;
          x4 = x3 * 0x45d9f3b
      in x4 XOR drop_bit 16 x4)"

definition hash_function :: "32 word \<Rightarrow> 32 word \<Rightarrow> 32 word \<Rightarrow> real option" where
  "hash_function x shift scale =
     (if scale = 0 then None
      else Some (real (unat (murmurhash32_mix32 ((x + shift) div scale))) / real UINT_MAX))"

definition radial_hash_intensity_fn :: "position \<Rightarrow> real list \<Rightarrow> real option" where
  "radial_hash_intensity_fn pos args = do {
     a0 \<leftarrow> arg args 0;
     a1 \<leftarrow> arg args 1;
     let shift = float_to_uint32 a0;
     let scale = float_to_uint32 a1;
     let s = word_of_nat (nat \<lfloor>sqrt (real (squared_length pos))\<rfloor>) + shift;
     x \<leftarrow> hash_function s shift scale;
     x_next \<leftarrow> hash_function (s + scale) shift scale;
     let t_x0 = real (unat (s mod scale)) / real (unat scale);
     let t_x = (if t_x0 < 0 then t_x0 + 1 else t_x0);
     a2 \<leftarrow> arg args 2;
     a3 \<leftarrow> arg args 3;
     Some (a2 - (x * (1 - t_x) + x_next * t_x) * a3)
   }"

text \<open>
  A function pointer is the name of the function it points to; \<^verbatim>\<open>NULL\<close> is
  \<open>None\<close>. Calling through the pointer dispatches on the name.
\<close>

datatype intensity_function =
  P_zero_intensity_fn | P_constant_intensity_fn | P_radial_hash_intensity_fn

fun call_intensity :: "intensity_function \<Rightarrow> position \<Rightarrow> real list \<Rightarrow> real option" where
  "call_intensity P_zero_intensity_fn = zero_intensity_fn"
| "call_intensity P_constant_intensity_fn = constant_intensity_fn"
| "call_intensity P_radial_hash_intensity_fn = radial_hash_intensity_fn"

text \<open>The enumeration \<^verbatim>\<open>intensity_fns\<close> over \<^verbatim>\<open>uint64_t\<close>.\<close>

definition intensity_fns_ZERO :: "64 word" where "intensity_fns_ZERO = 0"
definition intensity_fns_CONSTANT :: "64 word" where "intensity_fns_CONSTANT = 1"
definition intensity_fns_RADIAL_HASH :: "64 word" where "intensity_fns_RADIAL_HASH = 2"

definition get_intensity_fn ::
  "64 word \<Rightarrow> real list \<Rightarrow> nat \<Rightarrow> intensity_function option" where
  "get_intensity_fn tp args num_args =
     (if tp = intensity_fns_ZERO then
        (if num_args \<noteq> 0 then None else Some P_zero_intensity_fn)
      else if tp = intensity_fns_CONSTANT then
        (if num_args = 0 then None else Some P_constant_intensity_fn)
      else if tp = intensity_fns_RADIAL_HASH then
        (if num_args \<noteq> 4 then None else Some P_radial_hash_intensity_fn)
      else None)"

subsection \<open>Interaction functions\<close>

definition zero_interaction_fn :: "position \<Rightarrow> position \<Rightarrow> real list \<Rightarrow> real option" where
  "zero_interaction_fn pos1 pos2 args = Some 0"

definition piecewise_box_interaction_fn ::
  "position \<Rightarrow> position \<Rightarrow> real list \<Rightarrow> real option" where
  "piecewise_box_interaction_fn pos1 pos2 args = do {
     first_cutoff \<leftarrow> arg args 0;
     second_cutoff \<leftarrow> arg args 1;
     first_value \<leftarrow> arg args 2;
     second_value \<leftarrow> arg args 3;
     let squared_len = squared_length (pos_sub pos1 pos2);
     if real squared_len < first_cutoff then Some first_value
     else if real squared_len < second_cutoff then Some second_value
     else Some 0
   }"

definition gaussian_interaction_fn ::
  "position \<Rightarrow> position \<Rightarrow> real list \<Rightarrow> real option" where
  "gaussian_interaction_fn pos1 pos2 args = do {
     let diff = pos_sub pos1 pos2;
     a0 \<leftarrow> arg args 0;
     let dist = exp (real_of_int (- pos_x diff * pos_x diff) / (2 * a0 * a0)
                     - real_of_int (pos_y diff * pos_y diff) / (2 * a0 * a0));
     a1 \<leftarrow> arg args 1;
     Some (a1 * dist)
   }"

definition cross_interaction_fn ::
  "position \<Rightarrow> position \<Rightarrow> real list \<Rightarrow> real option" where
  "cross_interaction_fn pos1 pos2 args = do {
     let diff = pos_sub pos1 pos2;
     let dist = nat (max \<bar>pos_x diff\<bar> \<bar>pos_y diff\<bar>);
     a0 \<leftarrow> arg args 0;
     if real dist \<le> a0 then
       (if pos_x diff = 0 \<or> pos_y diff = 0 then arg args 2 else arg args 4)
     else do {
       a1 \<leftarrow> arg args 1;
       if real dist \<le> a1 then
         (if pos_x diff = 0 \<or> pos_y diff = 0 then arg args 3 else arg args 5)
       else Some 0
     }
   }"

definition cross_hash_interaction_fn ::
  "position \<Rightarrow> position \<Rightarrow> real list \<Rightarrow> real option" where
  "cross_hash_interaction_fn pos1 pos2 args = do {
     a0 \<leftarrow> arg args 0;
     let scale = float_to_uint32 a0;
     let px = (word_of_int (pos_x pos1) :: 32 word);
     x \<leftarrow> hash_function px 0 scale;
     x_next \<leftarrow> hash_function (px + scale) 0 scale;
     let t_x0 = real (unat (px mod scale)) / real (unat scale);
     let t_x = (if t_x0 < 0 then t_x0 + 1 else t_x0);
     a2 \<leftarrow> arg args 2;
     a1 \<leftarrow> arg args 1;
     let d = a2 * (x * (1 - t_x) + x_next * t_x) + a1;
     a3 \<leftarrow> arg args 3;
     let D = d + a3;
     let diff = pos_sub pos1 pos2;
     let dist = nat (max \<bar>pos_x diff\<bar> \<bar>pos_y diff\<bar>);
     if real dist \<le> d then
       (if pos_x diff = 0 \<or> pos_y diff = 0 then arg args 4 else arg args 6)
     else if real dist \<le> D then
       (if pos_x diff = 0 \<or> pos_y diff = 0 then arg args 5 else arg args 7)
     else Some 0
   }"

definition moore_interaction_fn ::
  "position \<Rightarrow> position \<Rightarrow> real list \<Rightarrow> real option" where
  "moore_interaction_fn pos1 pos2 args =
     (let diff = pos_sub pos1 pos2
      in if \<bar>pos_x diff\<bar> < 2 \<and> \<bar>pos_y diff\<bar> < 2 then Some 1 else Some (- 200))"

definition four_interaction_fn ::
  "position \<Rightarrow> position \<Rightarrow> real list \<Rightarrow> real option" where
  "four_interaction_fn pos1 pos2 args =
     (let diff = pos_sub pos1 pos2
      in if \<bar>pos_x diff\<bar> < 1 \<and> \<bar>pos_y diff\<bar> < 2 then Some 1
         else if \<bar>pos_y diff\<bar> < 1 \<and> \<bar>pos_x diff\<bar> < 2 then Some 1
         else Some (- 200))"

datatype interaction_function =
  P_zero_interaction_fn | P_piecewise_box_interaction_fn | P_cross_interaction_fn
| P_cross_hash_interaction_fn | P_moore_interaction_fn | P_four_interaction_fn
| P_gaussian_interaction_fn

fun call_interaction ::
  "interaction_function \<Rightarrow> position \<Rightarrow> position \<Rightarrow> real list \<Rightarrow> real option" where
  "call_interaction P_zero_interaction_fn = zero_interaction_fn"
| "call_interaction P_piecewise_box_interaction_fn = piecewise_box_interaction_fn"
| "call_interaction P_cross_interaction_fn = cross_interaction_fn"
| "call_interaction P_cross_hash_interaction_fn = cross_hash_interaction_fn"
| "call_interaction P_moore_interaction_fn = moore_interaction_fn"
| "call_interaction P_four_interaction_fn = four_interaction_fn"
| "call_interaction P_gaussian_interaction_fn = gaussian_interaction_fn"

text \<open>
  The enumeration \<^verbatim>\<open>interaction_fns\<close> over \<^verbatim>\<open>uint64_t\<close>, in the order of its
  declaration: \<^verbatim>\<open>GAUSSIAN\<close> comes before \<^verbatim>\<open>FOUR\<close>.
\<close>

definition interaction_fns_ZERO :: "64 word" where "interaction_fns_ZERO = 0"
definition interaction_fns_PIECEWISE_BOX :: "64 word" where "interaction_fns_PIECEWISE_BOX = 1"
definition interaction_fns_CROSS :: "64 word" where "interaction_fns_CROSS = 2"
definition interaction_fns_CROSS_HASH :: "64 word" where "interaction_fns_CROSS_HASH = 3"
definition interaction_fns_MOORE :: "64 word" where "interaction_fns_MOORE = 4"
definition interaction_fns_GAUSSIAN :: "64 word" where "interaction_fns_GAUSSIAN = 5"
definition interaction_fns_FOUR :: "64 word" where "interaction_fns_FOUR = 6"

definition get_interaction_fn ::
  "64 word \<Rightarrow> real list \<Rightarrow> nat \<Rightarrow> interaction_function option" where
  "get_interaction_fn tp args num_args =
     (if tp = interaction_fns_ZERO then
        (if num_args \<noteq> 0 then None else Some P_zero_interaction_fn)
      else if tp = interaction_fns_PIECEWISE_BOX then
        (if num_args \<noteq> 4 then None else Some P_piecewise_box_interaction_fn)
      else if tp = interaction_fns_CROSS then
        (if num_args \<noteq> 6 then None else Some P_cross_interaction_fn)
      else if tp = interaction_fns_CROSS_HASH then
        (if num_args \<noteq> 8 then None else Some P_cross_hash_interaction_fn)
      else if tp = interaction_fns_MOORE then
        (if num_args \<noteq> 0 then None else Some P_moore_interaction_fn)
      else if tp = interaction_fns_FOUR then
        (if num_args \<noteq> 0 then None else Some P_four_interaction_fn)
      else if tp = interaction_fns_GAUSSIAN then
        (if num_args \<noteq> 2 then None else Some P_gaussian_interaction_fn)
      else None)"

subsection \<open>Regeneration functions\<close>

definition zero_regeneration_fn :: "position \<Rightarrow> nat \<Rightarrow> real list \<Rightarrow> real option" where
  "zero_regeneration_fn pos time args = Some 0"

definition constant_regeneration_fn :: "position \<Rightarrow> nat \<Rightarrow> real list \<Rightarrow> real option" where
  "constant_regeneration_fn pos time args = arg args 0"

definition custom_regeneration_fn :: "position \<Rightarrow> nat \<Rightarrow> real list \<Rightarrow> real option" where
  "custom_regeneration_fn pos time args = arg args time"

datatype regeneration_function =
  P_zero_regeneration_fn | P_constant_regeneration_fn | P_custom_regeneration_fn

fun call_regeneration ::
  "regeneration_function \<Rightarrow> position \<Rightarrow> nat \<Rightarrow> real list \<Rightarrow> real option" where
  "call_regeneration P_zero_regeneration_fn = zero_regeneration_fn"
| "call_regeneration P_constant_regeneration_fn = constant_regeneration_fn"
| "call_regeneration P_custom_regeneration_fn = custom_regeneration_fn"

definition regeneration_fns_ZERO :: "64 word" where "regeneration_fns_ZERO = 0"
definition regeneration_fns_CONSTANT :: "64 word" where "regeneration_fns_CONSTANT = 1"
definition regeneration_fns_CUSTOM :: "64 word" where "regeneration_fns_CUSTOM = 2"

definition get_regeneration_fn ::
  "64 word \<Rightarrow> real list \<Rightarrow> nat \<Rightarrow> regeneration_function option" where
  "get_regeneration_fn tp args num_args =
     (if tp = regeneration_fns_ZERO then
        (if num_args \<noteq> 0 then None else Some P_zero_regeneration_fn)
      else if tp = regeneration_fns_CONSTANT then
        (if num_args = 0 then None else Some P_constant_regeneration_fn)
      else if tp = regeneration_fns_CUSTOM then
        (if num_args = 0 then None else Some P_custom_regeneration_fn)
      else None)"

subsection \<open>Classification\<close>

text \<open>
  The overloads of \<^verbatim>\<open>is_constant\<close> and \<^verbatim>\<open>is_stationary\<close> are told apart by a
  suffix; the unsuffixed names are the overloads for interaction functions.
\<close>

definition is_constant :: "interaction_function \<Rightarrow> bool" where
  "is_constant f = (f = P_zero_interaction_fn)"

definition is_constant_regeneration :: "regeneration_function \<Rightarrow> bool" where
  "is_constant_regeneration f = (f = P_zero_regeneration_fn)"

definition is_stationary_intensity :: "intensity_function \<Rightarrow> bool" where
  "is_stationary_intensity f = (f = P_zero_intensity_fn \<or> f = P_constant_intensity_fn)"

definition is_stationary :: "interaction_function \<Rightarrow> bool" where
  "is_stationary f =
     (f = P_zero_interaction_fn \<or> f = P_piecewise_box_interaction_fn
      \<or> f = P_cross_interaction_fn \<or> f = P_moore_interaction_fn)"

definition is_stationary_regeneration :: "regeneration_function \<Rightarrow> bool" where
  "is_stationary_regeneration f =
     (f = P_zero_regeneration_fn \<or> f = P_constant_regeneration_fn)"

definition is_time_independent :: "regeneration_function \<Rightarrow> bool" where
  "is_time_independent f = (f = P_zero_regeneration_fn \<or> f = P_constant_regeneration_fn)"

definition is_custom :: "regeneration_function \<Rightarrow> bool" where
  "is_custom f = (f = P_custom_regeneration_fn)"

section \<open>Arrays and loops\<close>

text \<open>
  A read \<^verbatim>\<open>a[i]\<close> and a write \<^verbatim>\<open>a[i] = v\<close> on an array of \<open>length a\<close> elements.
\<close>

definition nth_opt :: "'a list \<Rightarrow> nat \<Rightarrow> 'a option" where
  "nth_opt a i = (if i < length a then Some (a ! i) else None)"

definition store :: "'a list \<Rightarrow> nat \<Rightarrow> 'a \<Rightarrow> 'a list option" where
  "store a i v = (if i < length a then Some (a[i := v]) else None)"

text \<open>
  A block of floats obtained from \<^verbatim>\<open>malloc\<close> holds \<open>None\<close> in every cell that was
  never written. A read through a signed 64-bit index returns the float that
  was written there; there is none outside the block or in an unwritten cell.
\<close>

definition read_float :: "real option list \<Rightarrow> int \<Rightarrow> real option" where
  "read_float a i = (if 0 \<le> i \<and> i < int (length a) then a ! nat i else None)"

text \<open>
  \<^verbatim>\<open>for (k = a; k < b; k++) body\<close> is \<open>for_loop [a..<b] body\<close>: the body maps the
  counter and the state to the next state, and the loop stops where the body
  does.
\<close>

fun for_loop :: "nat list \<Rightarrow> (nat \<Rightarrow> 's \<Rightarrow> 's option) \<Rightarrow> 's \<Rightarrow> 's option" where
  "for_loop [] body s = Some s"
| "for_loop (k # ks) body s =
     (case body k s of None \<Rightarrow> None | Some s' \<Rightarrow> for_loop ks body s')"

section \<open>The sampler cache (\<^verbatim>\<open>gibbs_field_cache\<close> in gibbs\_field.h)\<close>

text \<open>
  An energy function of an item type: the function pointer and its argument
  array. The item type is the template parameter \<^verbatim>\<open>ItemType\<close>; the cache reads
  the three members below.
\<close>

record 'f energy_function =
  fn :: 'f
  args :: "real list"

record item_properties =
  intensity_fn :: "intensity_function energy_function"
  interaction_fns :: "interaction_function energy_function list"
  regeneration_fn :: "regeneration_function energy_function"

text \<open>
  The cache. The pointer \<^verbatim>\<open>interactions[k]\<close> is \<open>None\<close> when it is \<^verbatim>\<open>NULL\<close> and
  otherwise the block of floats it points to.
\<close>

record gibbs_field_cache =
  intensities :: "real option list"
  interactions :: "real option list option list"
  regenerations :: "real option list"
  two_n :: nat
  four_n :: nat
  item_types :: "item_properties list"
  item_type_count :: nat

text \<open>
  The value that \<^verbatim>\<open>init_helper\<close> computes for the cell \<open>(x, y)\<close> of the table of
  one pair of item types.
\<close>

definition table_cell ::
  "gibbs_field_cache \<Rightarrow> interaction_function energy_function \<Rightarrow> nat \<Rightarrow> nat \<Rightarrow> real option" where
  "table_cell c ef x y =
     (if x = two_n c \<and> y = two_n c then Some 0
      else call_interaction (fn ef) (position (int (two_n c)) (int (two_n c)))
             (position (int x) (int y)) (args ef))"

text \<open>
  The two loops over \<open>x\<close> and \<open>y\<close> that fill one table. The index
  \<^verbatim>\<open>x*four_n + y\<close> is computed in \<^verbatim>\<open>unsigned int\<close>.
\<close>

definition fill_table ::
  "gibbs_field_cache \<Rightarrow> interaction_function energy_function \<Rightarrow> real option list
     \<Rightarrow> real option list option" where
  "fill_table c ef =
     for_loop [0..<four_n c] (\<lambda>x.
       for_loop [0..<four_n c] (\<lambda>y tab. do {
         v \<leftarrow> table_cell c ef x y;
         store tab ((x * four_n c + y) mod 2 ^ 32) (Some v)
       }))"

text \<open>
  The body of the loop over \<open>j\<close>. The block has
  \<^verbatim>\<open>sizeof(float) * four_n * four_n\<close> bytes, a product taken in \<^verbatim>\<open>size_t\<close>; the
  index \<^verbatim>\<open>i*item_type_count + j\<close> is computed in \<^verbatim>\<open>unsigned int\<close>. Allocation
  is taken to succeed.
\<close>

definition init_pair :: "nat \<Rightarrow> nat \<Rightarrow> gibbs_field_cache \<Rightarrow> gibbs_field_cache option" where
  "init_pair i j c = do {
     it \<leftarrow> nth_opt (item_types c) i;
     ef \<leftarrow> nth_opt (interaction_fns it) j;
     let k = (i * item_type_count c + j) mod 2 ^ 32;
     if \<not> is_constant (fn ef) \<and> is_stationary (fn ef) then do {
       tab \<leftarrow> fill_table c ef
                (replicate ((4 * four_n c * four_n c) mod 2 ^ 64 div 4) None);
       ptrs \<leftarrow> store (interactions c) k (Some tab);
       Some (c\<lparr>interactions := ptrs\<rparr>)
     } else do {
       ptrs \<leftarrow> store (interactions c) k None;
       Some (c\<lparr>interactions := ptrs\<rparr>)
     }
   }"

text \<open>
  The body of the loop over \<open>i\<close>: the two conditional assignments to
  \<^verbatim>\<open>intensities[i]\<close> and \<^verbatim>\<open>regenerations[i]\<close>, then the loop over \<open>j\<close>.
\<close>

definition init_intensity ::
  "nat \<Rightarrow> item_properties \<Rightarrow> gibbs_field_cache \<Rightarrow> gibbs_field_cache option" where
  "init_intensity i it c =
     (if is_stationary_intensity (fn (intensity_fn it)) then do {
        v \<leftarrow> call_intensity (fn (intensity_fn it)) (position 0 0) (args (intensity_fn it));
        xs \<leftarrow> store (intensities c) i (Some v);
        Some (c\<lparr>intensities := xs\<rparr>)
      } else Some c)"

definition init_regeneration ::
  "nat \<Rightarrow> item_properties \<Rightarrow> gibbs_field_cache \<Rightarrow> gibbs_field_cache option" where
  "init_regeneration i it c =
     (if is_stationary_regeneration (fn (regeneration_fn it))
         \<and> is_time_independent (fn (regeneration_fn it)) then do {
        v \<leftarrow> call_regeneration (fn (regeneration_fn it)) (position 0 0) 0
               (args (regeneration_fn it));
        xs \<leftarrow> store (regenerations c) i (Some v);
        Some (c\<lparr>regenerations := xs\<rparr>)
      } else Some c)"

definition init_item :: "nat \<Rightarrow> gibbs_field_cache \<Rightarrow> gibbs_field_cache option" where
  "init_item i c0 = do {
     it \<leftarrow> nth_opt (item_types c0) i;
     c1 \<leftarrow> init_intensity i it c0;
     c2 \<leftarrow> init_regeneration i it c1;
     for_loop [0..<item_type_count c2] (init_pair i) c2
   }"

text \<open>
  \<^verbatim>\<open>init_helper\<close> under \<^verbatim>\<open>MH_SAMPLING\<close>, the sampling method the source selects.
  \<^verbatim>\<open>calloc\<close> receives \<^verbatim>\<open>item_type_count * item_type_count\<close>, a product of two
  \<^verbatim>\<open>unsigned int\<close>.
\<close>

definition init_helper :: "gibbs_field_cache \<Rightarrow> nat \<Rightarrow> gibbs_field_cache option" where
  "init_helper c n =
     for_loop [0..<item_type_count c] init_item
       (c\<lparr>intensities := replicate (item_type_count c) None,
          regenerations := replicate (item_type_count c) None,
          interactions :=
            replicate ((item_type_count c * item_type_count c) mod 2 ^ 32) None\<rparr>)"

text \<open>
  The constructor \<^verbatim>\<open>gibbs_field_cache(item_types, item_type_count, n)\<close> and the
  function \<^verbatim>\<open>init\<close> set the same four members and call \<^verbatim>\<open>init_helper\<close>.
\<close>

definition init :: "item_properties list \<Rightarrow> nat \<Rightarrow> nat \<Rightarrow> gibbs_field_cache option" where
  "init its cnt n =
     init_helper
       \<lparr>intensities = [], interactions = [], regenerations = [],
        two_n = (2 * n) mod 2 ^ 32, four_n = (4 * n) mod 2 ^ 32,
        item_types = its, item_type_count = cnt\<rparr> n"

text \<open>\<^verbatim>\<open>gibbs_field_cache::intensity\<close>.\<close>

definition intensity :: "gibbs_field_cache \<Rightarrow> position \<Rightarrow> nat \<Rightarrow> real option" where
  "intensity c pos t = do {
     it \<leftarrow> nth_opt (item_types c) t;
     if is_stationary_intensity (fn (intensity_fn it)) then do {
       cell \<leftarrow> nth_opt (intensities c) t;
       cell
     } else call_intensity (fn (intensity_fn it)) pos (args (intensity_fn it))
   }"

text \<open>
  \<^verbatim>\<open>gibbs_field_cache::interaction\<close>. The range check is compiled only without
  \<^verbatim>\<open>NDEBUG\<close>. The comparison of the \<^verbatim>\<open>int64_t\<close> coordinate with \<^verbatim>\<open>four_n\<close> and
  the index \<^verbatim>\<open>diff.x*four_n + diff.y\<close> are signed 64-bit.
\<close>

definition interaction ::
  "bool \<Rightarrow> gibbs_field_cache \<Rightarrow> position \<Rightarrow> position \<Rightarrow> nat \<Rightarrow> nat \<Rightarrow> real option" where
  "interaction ndebug c first_position second_position first_item_type second_item_type = do {
     it \<leftarrow> nth_opt (item_types c) first_item_type;
     ef \<leftarrow> nth_opt (interaction_fns it) second_item_type;
     if is_constant (fn ef) \<or> \<not> is_stationary (fn ef) then
       (if first_position = second_position then Some 0
        else call_interaction (fn ef) first_position second_position (args ef))
     else do {
       let diff = pos_add (pos_sub first_position second_position)
                    (position (int (two_n c)) (int (two_n c)));
       if \<not> ndebug \<and> (pos_x diff < 0 \<or> pos_x diff \<ge> int (four_n c)
                        \<or> pos_y diff < 0 \<or> pos_y diff \<ge> int (four_n c))
       then Some 0
       else do {
         ptr \<leftarrow> nth_opt (interactions c)
                  ((first_item_type * item_type_count c + second_item_type) mod 2 ^ 32);
         tab \<leftarrow> ptr;
         read_float tab (pos_x diff * int (four_n c) + pos_y diff)
       }
     }
   }"

section \<open>Reading the tables\<close>

text \<open>
  The entry of the table of the pair \<open>(t1, t2)\<close> for the displacement \<open>d\<close>, as the
  specification places it: at index \<^verbatim>\<open>(d + (2n,2n)).x * 4n + (d + (2n,2n)).y\<close>.
  This follows the specification's words; \<open>entry_after_init\<close> reads it in
  the cache that \<^verbatim>\<open>init\<close> builds.
\<close>

definition table_entry :: "gibbs_field_cache \<Rightarrow> nat \<Rightarrow> nat \<Rightarrow> position \<Rightarrow> real option" where
  "table_entry c t1 t2 d = do {
     ptr \<leftarrow> nth_opt (interactions c) (t1 * item_type_count c + t2);
     tab \<leftarrow> ptr;
     let s = pos_add d (position (int (two_n c)) (int (two_n c)));
     read_float tab (pos_x s * int (four_n c) + pos_y s)
   }"

definition entry_after_init ::
  "item_properties list \<Rightarrow> nat \<Rightarrow> nat \<Rightarrow> nat \<Rightarrow> nat \<Rightarrow> position \<Rightarrow> real option" where
  "entry_after_init its cnt n t1 t2 d = do { c \<leftarrow> init its cnt n; table_entry c t1 t2 d }"

text \<open>
  An item type with a constant intensity and the \<^verbatim>\<open>MOORE\<close> interaction with
  itself, used to run the definitions on concrete inputs.
\<close>

definition moore_item :: item_properties where
  "moore_item = \<lparr>intensity_fn = \<lparr>fn = P_constant_intensity_fn, args = [-2]\<rparr>,
     interaction_fns = [\<lparr>fn = P_moore_interaction_fn, args = []\<rparr>],
     regeneration_fn = \<lparr>fn = P_zero_regeneration_fn, args = []\<rparr>\<rparr>"

section \<open>What \<^verbatim>\<open>init_helper\<close> establishes\<close>

text \<open>
  The predicates of the loop invariants. \<open>table_ok\<close> says that a pointer is
  what \<^verbatim>\<open>init_helper\<close> leaves for one pair of item types: a table of
  \<open>four_n * four_n\<close> cells holding \<open>table_cell\<close> when the function is
  stationary and not constant, and \<^verbatim>\<open>NULL\<close> otherwise. \<open>pair_done\<close> says it of
  the pointer stored for the pair \<open>(i, j)\<close>; \<open>same_shape\<close> lists the members
  that the loops never change.
\<close>

definition table_ok ::
  "gibbs_field_cache \<Rightarrow> interaction_function energy_function \<Rightarrow> real option list option \<Rightarrow> bool" where
  "table_ok c ef ptr =
     (if \<not> is_constant (fn ef) \<and> is_stationary (fn ef) then
        (case ptr of
           None \<Rightarrow> False
         | Some tab \<Rightarrow> length tab = four_n c * four_n c
             \<and> (\<forall>x<four_n c. \<forall>y<four_n c. tab ! (x * four_n c + y) = table_cell c ef x y))
      else ptr = None)"

definition pair_done :: "gibbs_field_cache \<Rightarrow> nat \<Rightarrow> nat \<Rightarrow> bool" where
  "pair_done c i j =
     (i < length (item_types c) \<and> j < length (interaction_fns (item_types c ! i))
      \<and> i * item_type_count c + j < length (interactions c)
      \<and> table_ok c (interaction_fns (item_types c ! i) ! j)
           (interactions c ! (i * item_type_count c + j)))"

definition same_shape :: "gibbs_field_cache \<Rightarrow> gibbs_field_cache \<Rightarrow> bool" where
  "same_shape c0 c =
     (two_n c = two_n c0 \<and> four_n c = four_n c0 \<and> item_types c = item_types c0
      \<and> item_type_count c = item_type_count c0
      \<and> length (interactions c) = length (interactions c0))"

section \<open>Shuffling (\<^verbatim>\<open>shuffle\<close> in gibbs\_field.h)\<close>

text \<open>
  \<^verbatim>\<open>core::swap(array[next], array[i])\<close> on an array of \<open>length array\<close> elements.
\<close>

definition swap :: "'a list \<Rightarrow> nat \<Rightarrow> nat \<Rightarrow> 'a list option" where
  "swap array next i =
     (if next < length array \<and> i < length array
      then Some (array[next := array ! i, i := array ! next])
      else None)"

text \<open>
  The loop \<^verbatim>\<open>for (unsigned int i = length - 1; i > 0; i--)\<close>, entered with the
  current value of \<open>i\<close>. The divisor \<^verbatim>\<open>i + 1\<close> is computed in \<^verbatim>\<open>unsigned int\<close>, and
  a zero divisor stops the program.
\<close>

function shuffle_loop ::
  "('g \<Rightarrow> nat \<times> 'g) \<Rightarrow> 'a list \<Rightarrow> nat \<Rightarrow> 'g \<Rightarrow> ('a list \<times> 'g) option" where
  "shuffle_loop rng array i g =
     (if i > 0 then
        (if (i + 1) mod 2 ^ 32 = 0 then None
         else
           let (r, g') = rng g;
               next = r mod ((i + 1) mod 2 ^ 32)
           in if next \<noteq> i then
                (case swap array next i of
                   None \<Rightarrow> None
                 | Some array' \<Rightarrow> shuffle_loop rng array' (i - 1) g')
              else shuffle_loop rng array (i - 1) g')
      else Some (array, g))"
  by pat_completeness auto
termination
  by (relation "measure (\<lambda>(rng, array, i, g). i)") auto

text \<open>
  \<^verbatim>\<open>shuffle(array, length, rng)\<close>. The flag \<open>ndebug\<close> says whether the program
  was compiled with \<^verbatim>\<open>NDEBUG\<close>; without it a zero length returns at once. With
  it, \<^verbatim>\<open>length - 1\<close> wraps to \<open>UINT_MAX\<close>.
\<close>

definition shuffle ::
  "bool \<Rightarrow> ('g \<Rightarrow> nat \<times> 'g) \<Rightarrow> 'a list \<Rightarrow> nat \<Rightarrow> 'g \<Rightarrow> ('a list \<times> 'g) option" where
  "shuffle ndebug rng array len g =
     (if \<not> ndebug \<and> len = 0 then Some (array, g)
      else shuffle_loop rng array ((len + UINT_MAX) mod 2 ^ 32) g)"

text \<open>A linear congruential generator, used to run the definitions on concrete inputs.\<close>

definition lcg :: "nat \<Rightarrow> nat \<times> nat" where
  "lcg s = (let s' = (1103515245 * s + 12345) mod 2 ^ 31 in (s', s'))"

section \<open>The Metropolis-Hastings sampler (\<^verbatim>\<open>gibbs_field::sample\<close> in gibbs\_field.h)\<close>

text \<open>
  The sampler is a template over the map type; it reads the member \<^verbatim>\<open>items\<close> of
  a patch and the members \<^verbatim>\<open>item_type\<close> and \<^verbatim>\<open>location\<close> of an item, and it
  creates an item from four values, the last two being 0. The names of these
  two follow the specification's item instance (creation and deletion tick).
\<close>

record item =
  item_type :: nat
  location :: position
  creation_time :: nat
  deletion_time :: nat

record patch =
  items :: "item list"

text \<open>
  A pointer to a patch is an address, and the patches live in a store from
  addresses to patches: the neighborhoods of different patches of one batch
  point to the same patches. Each quadrant has an array of pointers and the
  number of its leading entries that are in use.
\<close>

type_synonym patch_store = "nat \<Rightarrow> patch"

record patch_neighborhood =
  bottom_left_neighborhood :: "nat list"
  top_left_neighborhood :: "nat list"
  bottom_right_neighborhood :: "nat list"
  top_right_neighborhood :: "nat list"
  bottom_left_neighbor_count :: nat
  top_left_neighbor_count :: nat
  bottom_right_neighbor_count :: nat
  top_right_neighbor_count :: nat

text \<open>
  The members of \<^verbatim>\<open>gibbs_field\<close>; the member \<^verbatim>\<open>n\<close> is \<open>patch_n\<close>. The constructor sets \<^verbatim>\<open>LOG_ITEM_TYPE_COUNT\<close> to
  \<^verbatim>\<open>log(cache.item_type_count)\<close> and \<^verbatim>\<open>LOG_N_SQUARED\<close> to \<^verbatim>\<open>2 * log(n)\<close>. For a
  count or a patch size of zero the source's values are minus infinity, which
  a real number cannot hold: the two constants below mean what the source
  means for positive arguments only, and every theorem about them assumes
  positive arguments.
\<close>

record gibbs_field =
  cache :: gibbs_field_cache
  patch_positions :: "position list"
  neighborhoods :: "patch_neighborhood list"
  patch_count :: nat
  patch_n :: nat

definition LOG_ITEM_TYPE_COUNT :: "gibbs_field \<Rightarrow> real" where
  "LOG_ITEM_TYPE_COUNT f = ln (real (item_type_count (cache f)))"

definition LOG_N_SQUARED :: "gibbs_field \<Rightarrow> real" where
  "LOG_N_SQUARED f = 2 * ln (real (patch_n f))"

text \<open>
  \<^verbatim>\<open>logarithm.get(k)\<close> of the shared cache of logarithms, after
  \<^verbatim>\<open>ensure_size(k + 1)\<close>: the logarithm of \<open>k\<close>, for positive \<open>k\<close>.
\<close>

definition logarithm_get :: "nat \<Rightarrow> real" where
  "logarithm_get k = ln (real k)"

text \<open>
  The test \<^verbatim>\<open>log(random) < log_acceptance_probability\<close> for a \<open>random\<close> that
  is not negative: \<^verbatim>\<open>log(0)\<close> is minus infinity and lies below every number.
\<close>

definition log_less :: "real \<Rightarrow> real \<Rightarrow> bool" where
  "log_less random l = (random = 0 \<or> ln random < l)"

text \<open>
  The choice of the quadrant neighborhood, which the source writes out twice,
  once for the proposed position and once for the position of the item to
  delete. The result is the part of the chosen array that is in use. The
  difference of the coordinates is compared with \<^verbatim>\<open>n / 2\<close> as a signed 64-bit
  number.
\<close>

definition choose_neighborhood ::
  "patch_neighborhood \<Rightarrow> nat \<Rightarrow> position \<Rightarrow> position \<Rightarrow> nat list option" where
  "choose_neighborhood nb n0 pos patch_position_offset =
     (let (arr, size) =
        (if pos_x pos - pos_x patch_position_offset < int (n0 div 2) then
           (if pos_y pos - pos_y patch_position_offset < int (n0 div 2)
            then (bottom_left_neighborhood nb, bottom_left_neighbor_count nb)
            else (top_left_neighborhood nb, top_left_neighbor_count nb))
         else
           (if pos_y pos - pos_y patch_position_offset < int (n0 div 2)
            then (bottom_right_neighborhood nb, bottom_right_neighbor_count nb)
            else (top_right_neighborhood nb, top_right_neighbor_count nb)))
      in if size \<le> length arr then Some (take size arr) else None)"

subsection \<open>Proposing a new item\<close>

text \<open>
  The loop over the items of one patch of the neighborhood. The result is the
  flag \<^verbatim>\<open>new_position_occupied\<close> and the accumulated log acceptance
  probability; the loop stops at the first item on the proposed position.
\<close>

fun birth_items ::
  "bool \<Rightarrow> gibbs_field_cache \<Rightarrow> position \<Rightarrow> nat \<Rightarrow> item list \<Rightarrow> real
     \<Rightarrow> (bool \<times> real) option" where
  "birth_items ndebug c new_position t [] l = Some (False, l)"
| "birth_items ndebug c new_position t (it # its) l =
     (if location it = new_position then Some (True, l)
      else do {
        a \<leftarrow> interaction ndebug c new_position (location it) t (item_type it);
        b \<leftarrow> interaction ndebug c (location it) new_position (item_type it) t;
        birth_items ndebug c new_position t its (l + a + b)
      })"

text \<open>The loop over the patches of the neighborhood, left when the position is occupied.\<close>

fun birth_patches ::
  "bool \<Rightarrow> gibbs_field_cache \<Rightarrow> patch_store \<Rightarrow> position \<Rightarrow> nat \<Rightarrow> nat list \<Rightarrow> real
     \<Rightarrow> (bool \<times> real) option" where
  "birth_patches ndebug c mem new_position t [] l = Some (False, l)"
| "birth_patches ndebug c mem new_position t (p # ps) l = do {
     (occupied, l') \<leftarrow> birth_items ndebug c new_position t (items (mem p)) l;
     if occupied then Some (True, l')
     else birth_patches ndebug c mem new_position t ps l'
   }"

text \<open>
  The branch \<^verbatim>\<open>rng() % 2 == 0\<close> for the patch at address \<open>current\<close>. The
  generator is called for the item type, twice for the coordinates and, when
  the position is free, for the acceptance test. The two coordinate calls are
  the arguments of \<^verbatim>\<open>position(rng() % n, rng() % n)\<close>, and the language leaves
  the order in which the arguments of a call are evaluated to the compiler:
  with \<open>y_first\<close> the first of the two draws is the argument \<^verbatim>\<open>y\<close> (evaluation
  from right to left), without it the argument \<^verbatim>\<open>x\<close>. A remainder by zero
  stops the program.
\<close>

definition propose_birth ::
  "bool \<Rightarrow> bool \<Rightarrow> ('g \<Rightarrow> nat \<times> 'g) \<Rightarrow> nat \<Rightarrow> gibbs_field \<Rightarrow> patch_neighborhood
     \<Rightarrow> position \<Rightarrow> nat \<Rightarrow> patch_store \<times> 'g \<Rightarrow> (patch_store \<times> 'g) option" where
  "propose_birth ndebug y_first rng rng_max f nb patch_position_offset current = (\<lambda>(mem, g0).
     if item_type_count (cache f) = 0 \<or> patch_n f = 0 then None
     else do {
       let (r1, g1) = rng g0;
       let t = r1 mod item_type_count (cache f);
       let (r2, g2) = rng g1;
       let (r3, g3) = rng g2;
       let (rx, ry) = (if y_first then (r3, r2) else (r2, r3));
       let new_position =
         pos_add patch_position_offset (position (int (rx mod patch_n f)) (int (ry mod patch_n f)));
       new_neighborhood \<leftarrow> choose_neighborhood nb (patch_n f) new_position patch_position_offset;
       (occupied, l0) \<leftarrow>
         birth_patches ndebug (cache f) mem new_position t new_neighborhood 0;
       if occupied then Some (mem, g3)
       else do {
         v \<leftarrow> intensity (cache f) new_position t;
         let l1 = l0 + v;
         let l2 = l1 + - logarithm_get ((length (items (mem current)) + 1) mod 2 ^ 32);
         let l3 = l2 - (- LOG_ITEM_TYPE_COUNT f - LOG_N_SQUARED f);
         let (r4, g4) = rng g3;
         let random = real r4 / real rng_max;
         if log_less random l3
         then Some (mem (current := (mem current)
                \<lparr>items := items (mem current)
                   @ [\<lparr>item_type = t, location = new_position,
                        creation_time = 0, deletion_time = 0\<rparr>]\<rparr>), g4)
         else Some (mem, g4)
       }
     })"

subsection \<open>Proposing to delete an item\<close>

text \<open>
  \<^verbatim>\<open>items.remove(index)\<close> of the array type of the core library, which is not
  part of the sources: the last element takes the place of the removed one
  and the length drops by one.
\<close>

definition array_remove :: "'a list \<Rightarrow> nat \<Rightarrow> 'a list" where
  "array_remove xs i =
     (if Suc i = length xs then butlast xs else butlast (xs[i := last xs]))"

text \<open>The two loops over the neighborhood; they visit every item.\<close>

fun death_items ::
  "bool \<Rightarrow> gibbs_field_cache \<Rightarrow> position \<Rightarrow> nat \<Rightarrow> item list \<Rightarrow> real \<Rightarrow> real option" where
  "death_items ndebug c old_position t [] l = Some l"
| "death_items ndebug c old_position t (it # its) l = do {
     a \<leftarrow> interaction ndebug c old_position (location it) t (item_type it);
     b \<leftarrow> interaction ndebug c (location it) old_position (item_type it) t;
     death_items ndebug c old_position t its (l - a - b)
   }"

fun death_patches ::
  "bool \<Rightarrow> gibbs_field_cache \<Rightarrow> patch_store \<Rightarrow> position \<Rightarrow> nat \<Rightarrow> nat list \<Rightarrow> real
     \<Rightarrow> real option" where
  "death_patches ndebug c mem old_position t [] l = Some l"
| "death_patches ndebug c mem old_position t (p # ps) l = do {
     l' \<leftarrow> death_items ndebug c old_position t (items (mem p)) l;
     death_patches ndebug c mem old_position t ps l'
   }"

text \<open>The branch \<^verbatim>\<open>else if (current.items.length > 0)\<close>.\<close>

definition propose_death ::
  "bool \<Rightarrow> ('g \<Rightarrow> nat \<times> 'g) \<Rightarrow> nat \<Rightarrow> gibbs_field \<Rightarrow> patch_neighborhood \<Rightarrow> position
     \<Rightarrow> nat \<Rightarrow> patch_store \<times> 'g \<Rightarrow> (patch_store \<times> 'g) option" where
  "propose_death ndebug rng rng_max f nb patch_position_offset current = (\<lambda>(mem, g0). do {
     let (r1, g1) = rng g0;
     let item_index = r1 mod length (items (mem current));
     old \<leftarrow> nth_opt (items (mem current)) item_index;
     let old_item_type = item_type old;
     let old_position = location old;
     old_neighborhood \<leftarrow> choose_neighborhood nb (patch_n f) old_position patch_position_offset;
     l0 \<leftarrow> death_patches ndebug (cache f) mem old_position old_item_type old_neighborhood 0;
     v \<leftarrow> intensity (cache f) old_position old_item_type;
     let l1 = l0 - v;
     let l2 = l1 + (- LOG_ITEM_TYPE_COUNT f - LOG_N_SQUARED f);
     let l3 = l2 - - logarithm_get (length (items (mem current)) mod 2 ^ 32);
     let (r2, g2) = rng g1;
     let random = real r2 / real rng_max;
     if log_less random l3
     then Some (mem (current := (mem current)
            \<lparr>items := array_remove (items (mem current)) item_index\<rparr>), g2)
     else Some (mem, g2)
   })"

subsection \<open>One sweep\<close>

text \<open>
  The body of the loop over the patches under \<^verbatim>\<open>MH_SAMPLING\<close>: the patch to
  update is the first entry of the top-left array.
\<close>

definition sample_patch ::
  "bool \<Rightarrow> bool \<Rightarrow> ('g \<Rightarrow> nat \<times> 'g) \<Rightarrow> nat \<Rightarrow> gibbs_field \<Rightarrow> nat
     \<Rightarrow> patch_store \<times> 'g \<Rightarrow> (patch_store \<times> 'g) option" where
  "sample_patch ndebug y_first rng rng_max f i = (\<lambda>(mem, g0). do {
     pp \<leftarrow> nth_opt (patch_positions f) i;
     let patch_position_offset = pos_scale pp (patch_n f);
     nb \<leftarrow> nth_opt (neighborhoods f) i;
     current \<leftarrow> nth_opt (top_left_neighborhood nb) 0;
     let (r0, g1) = rng g0;
     if r0 mod 2 = 0
     then propose_birth ndebug y_first rng rng_max f nb patch_position_offset current (mem, g1)
     else if length (items (mem current)) > 0
     then propose_death ndebug rng rng_max f nb patch_position_offset current (mem, g1)
     else Some (mem, g1)
   })"

definition sample ::
  "bool \<Rightarrow> bool \<Rightarrow> ('g \<Rightarrow> nat \<times> 'g) \<Rightarrow> nat \<Rightarrow> gibbs_field
     \<Rightarrow> patch_store \<times> 'g \<Rightarrow> (patch_store \<times> 'g) option" where
  "sample ndebug y_first rng rng_max f =
     for_loop [0..<patch_count f] (sample_patch ndebug y_first rng rng_max f)"
section \<open>The Python binding (\<^verbatim>\<open>simulator.cpp\<close>)\<close>

subsection \<open>Agent states\<close>

text \<open>
  Modelled from the spec: the type \<^verbatim>\<open>status\<close> is declared outside the sources;
  the specification lists its values as a closed enumeration.
\<close>

datatype status =
  OK | INVALID_AGENT_ID | SERVER_PARSE_MESSAGE_ERROR | CLIENT_PARSE_MESSAGE_ERROR
| SERVER_OUT_OF_MEMORY | CLIENT_OUT_OF_MEMORY | PERMISSION_DENIED










subsection \<open>Saving and loading\<close>

text \<open>
  Modelled from the spec: the stream type \<^verbatim>\<open>fixed_width_stream\<close> is outside the
  sources; the specification fixes the layout as fixed-width little-endian.
  A \<^verbatim>\<open>size_t\<close> or \<^verbatim>\<open>uint64_t\<close> is eight bytes, the least significant first.
\<close>

fun le_bytes :: "nat \<Rightarrow> nat \<Rightarrow> 8 word list" where
  "le_bytes 0 v = []"
| "le_bytes (Suc k) v = word_of_nat (v mod 256) # le_bytes k (v div 256)"

fun le_value :: "8 word list \<Rightarrow> nat" where
  "le_value [] = 0"
| "le_value (b # bs) = unat b + 256 * le_value bs"

definition write_u64 :: "nat \<Rightarrow> 8 word list" where
  "write_u64 v = le_bytes 8 v"

definition read_u64 :: "8 word list \<Rightarrow> (nat \<times> 8 word list) option" where
  "read_u64 bs = (if 8 \<le> length bs then Some (le_value (take 8 bs), drop 8 bs) else None)"

definition write_array :: "nat list \<Rightarrow> 8 word list" where
  "write_array xs = concat (map write_u64 xs)"

fun read_array :: "nat \<Rightarrow> 8 word list \<Rightarrow> (nat list \<times> 8 word list) option" where
  "read_array 0 bs = Some ([], bs)"
| "read_array (Suc k) bs = do {
     (x, bs') \<leftarrow> read_u64 bs;
     (xs, bs'') \<leftarrow> read_array k bs';
     Some (x # xs, bs'')
   }"

text \<open>
  The part of \<^verbatim>\<open>py_simulator_data\<close> that is saved: the owned agent and
  semaphore identifiers and the state of the server.
\<close>

record 'st py_simulator_data =
  agent_ids :: "nat list"
  semaphore_ids :: "nat list"
  server_state :: 'st

text \<open>
  \<^verbatim>\<open>simulator_save\<close>: the bytes written to the file when every write succeeds.
  The writers of the simulator and of the server state are defined outside
  the sources and are the parameters \<open>write_sim\<close> and \<open>write_state\<close>.
\<close>

definition simulator_save ::
  "('sim \<Rightarrow> 8 word list) \<Rightarrow> ('st \<Rightarrow> 8 word list) \<Rightarrow> 'sim \<Rightarrow> 'st py_simulator_data
     \<Rightarrow> 8 word list" where
  "simulator_save write_sim write_state sim data =
     write_sim sim
     @ write_u64 (length (agent_ids data)) @ write_array (agent_ids data)
     @ write_u64 (length (semaphore_ids data)) @ write_array (semaphore_ids data)
     @ write_state (server_state data)"

text \<open>
  \<^verbatim>\<open>simulator_load\<close>, up to the point where the file is closed: the loaded
  simulator and its data, or \<open>None\<close> when a read fails. The readers \<open>read_sim\<close>
  and \<open>read_state\<close> are parameters; each returns the value and the rest of
  the stream.
\<close>

definition simulator_load ::
  "(8 word list \<Rightarrow> ('sim \<times> 8 word list) option)
     \<Rightarrow> (8 word list \<Rightarrow> ('st \<times> 8 word list) option)
     \<Rightarrow> 8 word list \<Rightarrow> ('sim \<times> 'st py_simulator_data) option" where
  "simulator_load read_sim read_state file = do {
     (sim, in1) \<leftarrow> read_sim file;
     (agent_id_count, in2) \<leftarrow> read_u64 in1;
     (ids, in3) \<leftarrow> read_array agent_id_count in2;
     (semaphore_id_count, in4) \<leftarrow> read_u64 in3;
     (sems, in5) \<leftarrow> read_array semaphore_id_count in4;
     (state, in6) \<leftarrow> read_state in5;
     Some (sim, \<lparr>agent_ids = ids, semaphore_ids = sems, server_state = state\<rparr>)
   }"

text \<open>
  A property that a pair of writer and reader may have: reading what was
  written, whatever follows it in the stream, succeeds, leaves what follows,
  and yields a value that is written as the same bytes. Whether the writers
  and readers of the simulator and of the server state have it is decided by
  code outside the sources, and is not established here.
\<close>

definition reencodes ::
  "('a \<Rightarrow> 8 word list) \<Rightarrow> (8 word list \<Rightarrow> ('a \<times> 8 word list) option) \<Rightarrow> bool" where
  "reencodes wr rd =
     (\<forall>v rest. \<exists>v'. rd (wr v @ rest) = Some (v', rest) \<and> wr v' = wr v)"

section \<open>The registry as the specification words it\<close>

text \<open>
  The three lookups \<^verbatim>\<open>get_intensity_fn\<close>, \<^verbatim>\<open>get_interaction_fn\<close> and
  \<^verbatim>\<open>get_regeneration_fn\<close> as the specification states them: a tag is known or
  not, a known tag fixes the number of arguments it accepts, and a known tag
  names one callable. These definitions follow the specification's words, not
  the source; the theorems compare them with the source's functions.
\<close>

definition spec_intensity_known :: "64 word \<Rightarrow> bool" where
  "spec_intensity_known tp =
     (tp = intensity_fns_ZERO \<or> tp = intensity_fns_CONSTANT \<or> tp = intensity_fns_RADIAL_HASH)"

definition spec_intensity_count_ok :: "64 word \<Rightarrow> nat \<Rightarrow> bool" where
  "spec_intensity_count_ok tp k =
     ((tp = intensity_fns_ZERO \<and> k = 0) \<or> (tp = intensity_fns_RADIAL_HASH \<and> k = 4)
      \<or> (tp = intensity_fns_CONSTANT \<and> 1 \<le> k))"

definition spec_intensity_callable :: "64 word \<Rightarrow> intensity_function" where
  "spec_intensity_callable tp =
     (if tp = intensity_fns_CONSTANT then P_constant_intensity_fn
      else if tp = intensity_fns_RADIAL_HASH then P_radial_hash_intensity_fn
      else P_zero_intensity_fn)"

definition spec_interaction_known :: "64 word \<Rightarrow> bool" where
  "spec_interaction_known tp =
     (tp = interaction_fns_ZERO \<or> tp = interaction_fns_PIECEWISE_BOX
      \<or> tp = interaction_fns_CROSS \<or> tp = interaction_fns_CROSS_HASH
      \<or> tp = interaction_fns_MOORE \<or> tp = interaction_fns_FOUR
      \<or> tp = interaction_fns_GAUSSIAN)"

definition spec_interaction_count_ok :: "64 word \<Rightarrow> nat \<Rightarrow> bool" where
  "spec_interaction_count_ok tp k =
     ((tp = interaction_fns_ZERO \<and> k = 0) \<or> (tp = interaction_fns_MOORE \<and> k = 0)
      \<or> (tp = interaction_fns_FOUR \<and> k = 0) \<or> (tp = interaction_fns_PIECEWISE_BOX \<and> k = 4)
      \<or> (tp = interaction_fns_CROSS \<and> k = 6) \<or> (tp = interaction_fns_CROSS_HASH \<and> k = 8)
      \<or> (tp = interaction_fns_GAUSSIAN \<and> k = 2))"

definition spec_interaction_callable :: "64 word \<Rightarrow> interaction_function" where
  "spec_interaction_callable tp =
     (if tp = interaction_fns_PIECEWISE_BOX then P_piecewise_box_interaction_fn
      else if tp = interaction_fns_CROSS then P_cross_interaction_fn
      else if tp = interaction_fns_CROSS_HASH then P_cross_hash_interaction_fn
      else if tp = interaction_fns_MOORE then P_moore_interaction_fn
      else if tp = interaction_fns_FOUR then P_four_interaction_fn
      else if tp = interaction_fns_GAUSSIAN then P_gaussian_interaction_fn
      else P_zero_interaction_fn)"

definition spec_regeneration_known :: "64 word \<Rightarrow> bool" where
  "spec_regeneration_known tp =
     (tp = regeneration_fns_ZERO \<or> tp = regeneration_fns_CONSTANT
      \<or> tp = regeneration_fns_CUSTOM)"

definition spec_regeneration_count_ok :: "64 word \<Rightarrow> nat \<Rightarrow> bool" where
  "spec_regeneration_count_ok tp k =
     ((tp = regeneration_fns_ZERO \<and> k = 0) \<or> (tp = regeneration_fns_CONSTANT \<and> 1 \<le> k)
      \<or> (tp = regeneration_fns_CUSTOM \<and> 1 \<le> k))"

definition spec_regeneration_callable :: "64 word \<Rightarrow> regeneration_function" where
  "spec_regeneration_callable tp =
     (if tp = regeneration_fns_CONSTANT then P_constant_regeneration_fn
      else if tp = regeneration_fns_CUSTOM then P_custom_regeneration_fn
      else P_zero_regeneration_fn)"

text \<open>
  Dependence on the displacement only, as the specification defines a
  stationary interaction function: shifting both positions by the same
  vector never changes the result.
\<close>

definition depends_on_displacement_only ::
  "(position \<Rightarrow> position \<Rightarrow> real list \<Rightarrow> real option) \<Rightarrow> bool" where
  "depends_on_displacement_only f =
     (\<forall>p1 p2 d a. f (pos_add p1 d) (pos_add p2 d) a = f p1 p2 a)"

section \<open>The two moves as the specification words them\<close>












section \<open>Inputs for running the sampler\<close>


definition four_item :: item_properties where
  "four_item = \<lparr>intensity_fn = \<lparr>fn = P_constant_intensity_fn, args = [- 2]\<rparr>,
     interaction_fns = [\<lparr>fn = P_four_interaction_fn, args = []\<rparr>],
     regeneration_fn = \<lparr>fn = P_zero_regeneration_fn, args = []\<rparr>\<rparr>"

definition four_cache :: gibbs_field_cache where
  "four_cache = \<lparr>intensities = [Some (- 2)], interactions = [None], regenerations = [Some 0],
     two_n = 8, four_n = 16, item_types = [four_item], item_type_count = 1\<rparr>"





section \<open>The answer of \<^verbatim>\<open>get_agent_states\<close> as the specification words it\<close>


section \<open>Properties of the registry\<close>

lemmas tag_defs =
  intensity_fns_ZERO_def intensity_fns_CONSTANT_def intensity_fns_RADIAL_HASH_def
  interaction_fns_ZERO_def interaction_fns_PIECEWISE_BOX_def interaction_fns_CROSS_def
  interaction_fns_CROSS_HASH_def interaction_fns_MOORE_def interaction_fns_GAUSSIAN_def
  interaction_fns_FOUR_def
  regeneration_fns_ZERO_def regeneration_fns_CONSTANT_def regeneration_fns_CUSTOM_def

lemma get_intensity_fn_spec:
  "get_intensity_fn tp a k =
     (if spec_intensity_known tp \<and> spec_intensity_count_ok tp k
      then Some (spec_intensity_callable tp) else None)"
  by (simp add: get_intensity_fn_def spec_intensity_known_def spec_intensity_count_ok_def
      spec_intensity_callable_def tag_defs)

lemma get_interaction_fn_spec:
  "get_interaction_fn tp a k =
     (if spec_interaction_known tp \<and> spec_interaction_count_ok tp k
      then Some (spec_interaction_callable tp) else None)"
  by (simp add: get_interaction_fn_def spec_interaction_known_def spec_interaction_count_ok_def
      spec_interaction_callable_def tag_defs)

lemma get_regeneration_fn_spec:
  "get_regeneration_fn tp a k =
     (if spec_regeneration_known tp \<and> spec_regeneration_count_ok tp k
      then Some (spec_regeneration_callable tp) else None)"
  by (simp add: get_regeneration_fn_def spec_regeneration_known_def
      spec_regeneration_count_ok_def spec_regeneration_callable_def tag_defs)

lemma spec_intensity_callable_inj:
  "spec_intensity_known t1 \<Longrightarrow> spec_intensity_known t2 \<Longrightarrow>
   spec_intensity_callable t1 = spec_intensity_callable t2 \<Longrightarrow> t1 = t2"
  by (auto simp: spec_intensity_known_def spec_intensity_callable_def tag_defs
      split: if_splits)

lemma spec_interaction_callable_inj:
  "spec_interaction_known t1 \<Longrightarrow> spec_interaction_known t2 \<Longrightarrow>
   spec_interaction_callable t1 = spec_interaction_callable t2 \<Longrightarrow> t1 = t2"
  unfolding spec_interaction_known_def spec_interaction_callable_def tag_defs
  by (elim disjE) simp_all

lemma spec_regeneration_callable_inj:
  "spec_regeneration_known t1 \<Longrightarrow> spec_regeneration_known t2 \<Longrightarrow>
   spec_regeneration_callable t1 = spec_regeneration_callable t2 \<Longrightarrow> t1 = t2"
  by (auto simp: spec_regeneration_known_def spec_regeneration_callable_def tag_defs
      split: if_splits)

text \<open>
  Claim C6. For every tag value and every argument count, each of
  \<^verbatim>\<open>get_intensity_fn\<close>, \<^verbatim>\<open>get_interaction_fn\<close> and \<^verbatim>\<open>get_regeneration_fn\<close> returns
  \<^verbatim>\<open>NULL\<close> exactly when the tag is unknown or the count fails the validation
  of that tag, and otherwise returns the callable of that tag; two different
  known tags never share a callable.
\<close>

theorem get_fn_null_iff_invalid:
  "(get_intensity_fn tp a k = None
      \<longleftrightarrow> \<not> spec_intensity_known tp \<or> \<not> spec_intensity_count_ok tp k)
   \<and> (spec_intensity_known tp \<and> spec_intensity_count_ok tp k
      \<longrightarrow> get_intensity_fn tp a k = Some (spec_intensity_callable tp))
   \<and> (get_interaction_fn tp a k = None
      \<longleftrightarrow> \<not> spec_interaction_known tp \<or> \<not> spec_interaction_count_ok tp k)
   \<and> (spec_interaction_known tp \<and> spec_interaction_count_ok tp k
      \<longrightarrow> get_interaction_fn tp a k = Some (spec_interaction_callable tp))
   \<and> (get_regeneration_fn tp a k = None
      \<longleftrightarrow> \<not> spec_regeneration_known tp \<or> \<not> spec_regeneration_count_ok tp k)
   \<and> (spec_regeneration_known tp \<and> spec_regeneration_count_ok tp k
      \<longrightarrow> get_regeneration_fn tp a k = Some (spec_regeneration_callable tp))
   \<and> (\<forall>t1 t2. spec_intensity_known t1 \<and> spec_intensity_known t2
        \<and> spec_intensity_callable t1 = spec_intensity_callable t2 \<longrightarrow> t1 = t2)
   \<and> (\<forall>t1 t2. spec_interaction_known t1 \<and> spec_interaction_known t2
        \<and> spec_interaction_callable t1 = spec_interaction_callable t2 \<longrightarrow> t1 = t2)
   \<and> (\<forall>t1 t2. spec_regeneration_known t1 \<and> spec_regeneration_known t2
        \<and> spec_regeneration_callable t1 = spec_regeneration_callable t2 \<longrightarrow> t1 = t2)"
  using spec_intensity_callable_inj spec_interaction_callable_inj spec_regeneration_callable_inj
  by (simp add: get_intensity_fn_spec get_interaction_fn_spec get_regeneration_fn_spec)

theorem get_fn_null_iff_invalid_witness:
  "get_intensity_fn intensity_fns_CONSTANT [- 2] 1 = Some P_constant_intensity_fn
   \<and> get_interaction_fn interaction_fns_CROSS [] 6 = Some P_cross_interaction_fn
   \<and> get_regeneration_fn regeneration_fns_CUSTOM [1, 2] 2 = Some P_custom_regeneration_fn
   \<and> get_interaction_fn interaction_fns_CROSS [] 5 = None
   \<and> get_interaction_fn 7 [] 0 = None"
proof -
  have known: "spec_intensity_known intensity_fns_CONSTANT"
    "spec_interaction_known interaction_fns_CROSS"
    "spec_regeneration_known regeneration_fns_CUSTOM"
    by (simp_all add: spec_intensity_known_def spec_interaction_known_def
        spec_regeneration_known_def)
  have ok: "spec_intensity_count_ok intensity_fns_CONSTANT 1"
    "spec_interaction_count_ok interaction_fns_CROSS 6"
    "spec_regeneration_count_ok regeneration_fns_CUSTOM 2"
    "\<not> spec_interaction_count_ok interaction_fns_CROSS 5"
    "\<not> spec_interaction_known 7"
    by (simp_all add: spec_intensity_count_ok_def spec_interaction_count_ok_def
        spec_regeneration_count_ok_def spec_interaction_known_def tag_defs)
  have call: "spec_intensity_callable intensity_fns_CONSTANT = P_constant_intensity_fn"
    "spec_interaction_callable interaction_fns_CROSS = P_cross_interaction_fn"
    "spec_regeneration_callable regeneration_fns_CUSTOM = P_custom_regeneration_fn"
    by (simp_all add: spec_intensity_callable_def spec_interaction_callable_def
        spec_regeneration_callable_def tag_defs)
  show ?thesis
    using get_fn_null_iff_invalid [of intensity_fns_CONSTANT "[- 2]" 1]
      get_fn_null_iff_invalid [of interaction_fns_CROSS "[]" 6]
      get_fn_null_iff_invalid [of regeneration_fns_CUSTOM "[1, 2]" 2]
      get_fn_null_iff_invalid [of interaction_fns_CROSS "[]" 5]
      get_fn_null_iff_invalid [of 7 "[]" 0]
      known ok call
    by simp
qed

text \<open>
  Claim C4 as stated fails: at tick 2 with an argument array of two floats,
  \<^verbatim>\<open>custom_regeneration_fn\<close> does not return 0; it reads \<^verbatim>\<open>args[2]\<close>, one past the
  end of the array.
\<close>

theorem custom_regeneration_fn_counterexample:
  "custom_regeneration_fn (position 0 0) 2 [1, 2] \<noteq> Some 0"
  by (simp add: custom_regeneration_fn_def arg_def)

text \<open>
  Claim C4, amended. \<^verbatim>\<open>custom_regeneration_fn\<close> makes no bounds check: for
  every tick below the length of its argument array it returns the entry at
  that tick, and a tick at or beyond the length is a read outside the array,
  for which no value (and in particular not 0) is returned.
\<close>

theorem custom_regeneration_fn_unchecked:
  "(time < length a \<longrightarrow> custom_regeneration_fn pos time a = Some (a ! time))
   \<and> (length a \<le> time \<longrightarrow> custom_regeneration_fn pos time a = None)"
  by (simp add: custom_regeneration_fn_def arg_def)

theorem custom_regeneration_fn_unchecked_witness:
  "custom_regeneration_fn (position 3 4) 1 [5, 7] = Some 7
   \<and> custom_regeneration_fn (position 3 4) 2 [5, 7] = None"
  using custom_regeneration_fn_unchecked [of 1 "[5, 7]" "position 3 4"]
    custom_regeneration_fn_unchecked [of 2 "[5, 7]" "position 3 4"]
  by simp

lemma pos_sub_shift [simp]: "pos_sub (pos_add p d) (pos_add q d) = pos_sub p q"
  by (simp add: pos_sub_def pos_add_def)

lemma stationary_functions_depend_on_displacement_only:
  "is_stationary f \<Longrightarrow> depends_on_displacement_only (call_interaction f)"
  by (auto simp: is_stationary_def depends_on_displacement_only_def zero_interaction_fn_def
      piecewise_box_interaction_fn_def cross_interaction_fn_def moore_interaction_fn_def)

text \<open>
  Claim C5 at the two functions where the source departs from it.
  \<^verbatim>\<open>four_interaction_fn\<close> and \<^verbatim>\<open>gaussian_interaction_fn\<close> read nothing but the
  difference of their two positions, so they depend on the displacement only,
  and \<^verbatim>\<open>is_stationary\<close> answers \<^verbatim>\<open>false\<close> for both.
\<close>

theorem is_stationary_misses_four_and_gaussian:
  "depends_on_displacement_only (call_interaction P_four_interaction_fn)
   \<and> is_stationary P_four_interaction_fn = False
   \<and> depends_on_displacement_only (call_interaction P_gaussian_interaction_fn)
   \<and> is_stationary P_gaussian_interaction_fn = False"
  by (simp add: depends_on_displacement_only_def four_interaction_fn_def
      gaussian_interaction_fn_def is_stationary_def)

section \<open>Properties of the sampler cache\<close>

subsection \<open>Loops\<close>

lemma for_loop_append:
  "for_loop (ks @ ls) body s =
     (case for_loop ks body s of None \<Rightarrow> None | Some s' \<Rightarrow> for_loop ls body s')"
  by (induction ks arbitrary: s) (auto split: option.splits)

lemma for_loop_upt_Suc:
  "for_loop [0..<Suc b] body s =
     (case for_loop [0..<b] body s of None \<Rightarrow> None | Some s' \<Rightarrow> body b s')"
  by (simp add: for_loop_append split: option.splits)

lemma for_loop_invariant:
  assumes "for_loop [0..<b] body s = Some s'"
    and "I 0 s"
    and "\<And>k t t'. k < b \<Longrightarrow> I k t \<Longrightarrow> body k t = Some t' \<Longrightarrow> I (Suc k) t'"
  shows "I b s'"
  using assms
proof (induction b arbitrary: s')
  case 0
  then show ?case by simp
next
  case (Suc b)
  from Suc.prems(1) obtain t where t: "for_loop [0..<b] body s = Some t" and b: "body b t = Some s'"
    by (auto simp: for_loop_append split: option.splits)
  have "I b t"
    using Suc.IH[OF t Suc.prems(2)] Suc.prems(3) by simp
  then show ?case using Suc.prems(3)[of b t s'] b by simp
qed

lemma index_inj:
  fixes F :: nat
  assumes "y < F" "y' < F" "x * F + y = x' * F + y'"
  shows "x = x' \<and> y = y'"
proof -
  have "(y + x * F) div F = x" "(y' + x' * F) div F = x'" using assms by simp_all
  then have "x = x'" using assms(3) by (simp add: add.commute)
  then show ?thesis using assms(3) by simp
qed

lemma index_bound:
  fixes F :: nat
  assumes "x < F" "y < F"
  shows "x * F + y < F * F"
proof -
  have "x * F + y < x * F + F" using assms by simp
  also have "\<dots> = (Suc x) * F" by simp
  also have "\<dots> \<le> F * F" using assms(1) by (metis Suc_leI mult_le_mono1)
  finally show ?thesis .
qed

lemma fill_row:
  assumes run: "for_loop [0..<four_n c] (\<lambda>y tab. do {
         v \<leftarrow> table_cell c ef x y;
         store tab ((x * four_n c + y) mod 2 ^ 32) (Some v)
       }) tab0 = Some tab"
    and x: "x < four_n c"
    and small: "four_n c * four_n c \<le> 2 ^ 32"
    and len: "length tab0 = L"
    and prev: "\<forall>x'<x. \<forall>y<four_n c. tab0 ! (x' * four_n c + y) = table_cell c ef x' y"
  shows "length tab = L \<and> (\<forall>x'<Suc x. \<forall>y<four_n c. tab ! (x' * four_n c + y) = table_cell c ef x' y)"
proof -
  define F where "F = four_n c"
  define I where "I = (\<lambda>y t. length t = L
      \<and> (\<forall>x'<x. \<forall>y'<F. t ! (x' * F + y') = table_cell c ef x' y')
      \<and> (\<forall>y'<y. t ! (x * F + y') = table_cell c ef x y'))"
  have "I F tab"
  proof (rule for_loop_invariant[where I = I, OF run[folded F_def]])
    show "I 0 tab0" using len prev by (simp add: I_def F_def)
  next
    fix k t t'
    assume k: "k < F" and inv: "I k t"
      and body: "do { v \<leftarrow> table_cell c ef x k; store t ((x * F + k) mod 2 ^ 32) (Some v) } = Some t'"
    from body obtain v where v: "table_cell c ef x k = Some v"
      and st: "store t ((x * F + k) mod 2 ^ 32) (Some v) = Some t'"
      by (auto simp: bind_eq_Some_conv)
    have lt: "x * F + k < F * F" using index_bound x k by (simp add: F_def)
    then have md: "(x * F + k) mod 2 ^ 32 = x * F + k" using small by (simp add: F_def)
    from st md have t': "t' = t[x * F + k := Some v]" and inb: "x * F + k < length t"
      by (auto simp: store_def split: if_splits)
    have a: "length t' = L" using inv t' by (simp add: I_def)
    have b: "\<forall>x'<x. \<forall>y'<F. t' ! (x' * F + y') = table_cell c ef x' y'"
    proof (intro allI impI)
      fix x' y' assume "x' < x" "y' < F"
      then have "x' * F + y' \<noteq> x * F + k" using index_inj[of y' F k x' x] k by auto
      then show "t' ! (x' * F + y') = table_cell c ef x' y'"
        using inv \<open>x' < x\<close> \<open>y' < F\<close> by (simp add: t' I_def)
    qed
    have d: "\<forall>y'<Suc k. t' ! (x * F + y') = table_cell c ef x y'"
    proof (intro allI impI)
      fix y' assume "y' < Suc k"
      show "t' ! (x * F + y') = table_cell c ef x y'"
      proof (cases "y' = k")
        case True
        then show ?thesis using inb v by (simp add: t')
      next
        case False
        then have "y' < k" using \<open>y' < Suc k\<close> by simp
        then show ?thesis using inv False by (simp add: t' I_def)
      qed
    qed
    show "I (Suc k) t'" using a b d by (simp add: I_def)
  qed
  then show ?thesis
    by (auto simp: I_def F_def less_Suc_eq)
qed

lemma fill_table_cells:
  assumes run: "fill_table c ef tab0 = Some tab"
    and small: "four_n c * four_n c \<le> 2 ^ 32"
  shows "length tab = length tab0
    \<and> (\<forall>x<four_n c. \<forall>y<four_n c. tab ! (x * four_n c + y) = table_cell c ef x y)"
proof -
  define I where "I = (\<lambda>x t. length t = length tab0
      \<and> (\<forall>x'<x. \<forall>y<four_n c. t ! (x' * four_n c + y) = table_cell c ef x' y))"
  have "I (four_n c) tab"
  proof (rule for_loop_invariant[where I = I, OF run[unfolded fill_table_def]])
    show "I 0 tab0" by (simp add: I_def)
  next
    fix k t t'
    assume "k < four_n c" "I k t"
      and "for_loop [0..<four_n c] (\<lambda>y tab. do {
         v \<leftarrow> table_cell c ef k y;
         store tab ((k * four_n c + y) mod 2 ^ 32) (Some v)
       }) t = Some t'"
    then show "I (Suc k) t'"
      using fill_row[of c ef k t t' "length tab0"] small by (simp add: I_def)
  qed
  then show ?thesis by (simp add: I_def)
qed

subsection \<open>The tables after \<^verbatim>\<open>init_helper\<close>\<close>

lemma table_cell_shape: "two_n c' = two_n c \<Longrightarrow> table_cell c' ef x y = table_cell c ef x y"
  by (simp add: table_cell_def)

lemma table_ok_shape:
  "two_n c' = two_n c \<Longrightarrow> four_n c' = four_n c \<Longrightarrow> table_ok c' ef ptr = table_ok c ef ptr"
  by (cases ptr) (simp_all add: table_ok_def table_cell_def)

lemma pair_done_shape:
  assumes "same_shape c c'" and "interactions c' = interactions c"
  shows "pair_done c' i j = pair_done c i j"
proof -
  have "table_ok c' ef p = table_ok c ef p" for ef p
    by (rule table_ok_shape) (use assms(1) in \<open>simp_all add: same_shape_def\<close>)
  then show ?thesis
    using assms unfolding pair_done_def same_shape_def by simp
qed

lemma table_size:
  fixes F :: nat
  assumes "F * F \<le> 2 ^ 32"
  shows "(4 * F * F) mod 2 ^ 64 div 4 = F * F"
proof -
  have "4 * F * F \<le> 4 * 2 ^ 32" using assms by simp
  then have "4 * F * F < 2 ^ 64" by simp
  then show ?thesis by simp
qed

lemma init_pair_step:
  assumes run: "init_pair i j c = Some c'"
    and small: "four_n c * four_n c \<le> 2 ^ 32"
    and nowrap: "i * item_type_count c + j < 2 ^ 32"
  shows "i < length (item_types c) \<and> j < length (interaction_fns (item_types c ! i))
       \<and> i * item_type_count c + j < length (interactions c)
       \<and> (\<exists>e. c' = c\<lparr>interactions := (interactions c)[i * item_type_count c + j := e]\<rparr>
            \<and> table_ok c (interaction_fns (item_types c ! i) ! j) e)"
proof -
  define k where "k = i * item_type_count c + j"
  have md: "(i * item_type_count c + j) mod 2 ^ 32 = k" using nowrap by (simp add: k_def)
  from run have i: "i < length (item_types c)"
    by (auto simp: init_pair_def nth_opt_def bind_eq_Some_conv split: if_splits)
  define it where "it = item_types c ! i"
  from run i have j: "j < length (interaction_fns it)"
    by (auto simp: init_pair_def nth_opt_def bind_eq_Some_conv it_def split: if_splits)
  define ef where "ef = interaction_fns it ! j"
  have rd: "nth_opt (item_types c) i = Some it" "nth_opt (interaction_fns it) j = Some ef"
    using i j by (simp_all add: nth_opt_def it_def ef_def)
  show ?thesis
  proof (cases "\<not> is_constant (fn ef) \<and> is_stationary (fn ef)")
    case True
    with run rd md obtain tab ptrs where
      tab: "fill_table c ef (replicate ((4 * four_n c * four_n c) mod 2 ^ 64 div 4) None) = Some tab"
      and ptrs: "store (interactions c) k (Some tab) = Some ptrs"
      and c': "c' = c\<lparr>interactions := ptrs\<rparr>"
      by (auto simp: init_pair_def bind_eq_Some_conv Let_def)
    from fill_table_cells[OF tab small] table_size[OF small]
    have "table_ok c ef (Some tab)" using True by (simp add: table_ok_def)
    moreover from ptrs have "k < length (interactions c)" "ptrs = (interactions c)[k := Some tab]"
      by (auto simp: store_def split: if_splits)
    ultimately show ?thesis using i j c' by (auto simp: k_def it_def ef_def)
  next
    case False
    with run rd md obtain ptrs where
      ptrs: "store (interactions c) k None = Some ptrs"
      and c': "c' = c\<lparr>interactions := ptrs\<rparr>"
      by (auto simp: init_pair_def bind_eq_Some_conv Let_def)
    have "table_ok c ef None" using False by (simp add: table_ok_def)
    moreover from ptrs have "k < length (interactions c)" "ptrs = (interactions c)[k := None]"
      by (auto simp: store_def split: if_splits)
    ultimately show ?thesis using i j c' by (auto simp: k_def it_def ef_def)
  qed
qed

lemma pairs_loop:
  assumes run: "for_loop [0..<item_type_count c0] (init_pair i) c0 = Some c"
    and i: "i < item_type_count c0"
    and small: "four_n c0 * four_n c0 \<le> 2 ^ 32"
    and cnt: "item_type_count c0 * item_type_count c0 < 2 ^ 32"
    and prev: "\<forall>i'<i. \<forall>j'<item_type_count c0. pair_done c0 i' j'"
  shows "same_shape c0 c \<and> intensities c = intensities c0 \<and> regenerations c = regenerations c0
       \<and> (\<forall>i'<Suc i. \<forall>j'<item_type_count c0. pair_done c i' j')"
proof -
  define N where "N = item_type_count c0"
  define I where "I = (\<lambda>j c. same_shape c0 c \<and> intensities c = intensities c0
      \<and> regenerations c = regenerations c0
      \<and> (\<forall>i'<i. \<forall>j'<N. pair_done c i' j') \<and> (\<forall>j'<j. pair_done c i j'))"
  have "I N c"
  proof (rule for_loop_invariant[where I = I, OF run[folded N_def]])
    show "I 0 c0" using prev by (simp add: I_def same_shape_def N_def)
  next
    fix j t t'
    assume j: "j < N" and inv: "I j t" and body: "init_pair i j t = Some t'"
    have sh: "same_shape c0 t" using inv by (simp add: I_def)
    then have Nt: "item_type_count t = N" and Ft: "four_n t = four_n c0"
      by (simp_all add: same_shape_def N_def)
    have kb: "i * N + j < N * N" using index_bound[of i N j] i j by (simp add: N_def)
    then have nowrap: "i * item_type_count t + j < 2 ^ 32" using cnt by (simp add: Nt N_def)
    from init_pair_step[OF body _ nowrap] small Ft obtain e where
      b: "i < length (item_types t)" "j < length (interaction_fns (item_types t ! i))"
         "i * N + j < length (interactions t)"
      and t': "t' = t\<lparr>interactions := (interactions t)[i * N + j := e]\<rparr>"
      and ok: "table_ok t (interaction_fns (item_types t ! i) ! j) e"
      by (auto simp: Nt)
    have sh': "same_shape c0 t'" using sh by (simp add: t' same_shape_def)
    have tk: "table_ok t' ef p = table_ok t ef p" for ef p
      by (rule table_ok_shape) (simp_all add: t')
    have keep: "pair_done t' i' j'" if "pair_done t i' j'" "j' < N" "i' * N + j' \<noteq> i * N + j" for i' j'
      using that unfolding pair_done_def tk by (simp add: t' Nt)
    have new: "pair_done t' i j" using b ok
      unfolding pair_done_def tk by (simp add: t' Nt)
    have a: "\<forall>i'<i. \<forall>j'<N. pair_done t' i' j'"
    proof (intro allI impI)
      fix i' j' assume "i' < i" "j' < N"
      then have "i' * N + j' \<noteq> i * N + j" using index_inj[of j' N j i' i] j by auto
      then show "pair_done t' i' j'" using keep inv \<open>i' < i\<close> \<open>j' < N\<close> by (simp add: I_def)
    qed
    have d: "\<forall>j'<Suc j. pair_done t' i j'"
    proof (intro allI impI)
      fix j' assume "j' < Suc j"
      show "pair_done t' i j'"
      proof (cases "j' = j")
        case True then show ?thesis using new by simp
      next
        case False
        then have "j' < j" using \<open>j' < Suc j\<close> by simp
        moreover have "i * N + j' \<noteq> i * N + j" using False by simp
        ultimately show ?thesis using keep inv j by (simp add: I_def)
      qed
    qed
    show "I (Suc j) t'" using sh' a d inv by (simp add: I_def t')
  qed
  then show ?thesis by (auto simp: I_def N_def less_Suc_eq)
qed

lemma init_item_step:
  assumes run: "init_item i c0 = Some c"
    and i: "i < item_type_count c0"
    and small: "four_n c0 * four_n c0 \<le> 2 ^ 32"
    and cnt: "item_type_count c0 * item_type_count c0 < 2 ^ 32"
    and prev: "\<forall>i'<i. \<forall>j'<item_type_count c0. pair_done c0 i' j'"
  shows "same_shape c0 c \<and> (\<forall>i'<Suc i. \<forall>j'<item_type_count c0. pair_done c i' j')"
proof -
  from run obtain it c1 c2 where
    c1: "init_intensity i it c0 = Some c1"
    and c2: "init_regeneration i it c1 = Some c2"
    and loop: "for_loop [0..<item_type_count c2] (init_pair i) c2 = Some c"
    by (auto simp: init_item_def bind_eq_Some_conv)
  from c1 have s1: "same_shape c0 c1" "interactions c1 = interactions c0"
    by (auto simp: init_intensity_def same_shape_def bind_eq_Some_conv split: if_splits)
  from c2 have s2: "same_shape c1 c2" "interactions c2 = interactions c1"
    by (auto simp: init_regeneration_def same_shape_def bind_eq_Some_conv split: if_splits)
  have s02: "same_shape c0 c2" using s1 s2 by (simp add: same_shape_def)
  have N: "item_type_count c2 = item_type_count c0" "four_n c2 = four_n c0"
    using s02 by (simp_all add: same_shape_def)
  have prev2: "\<forall>i'<i. \<forall>j'<item_type_count c2. pair_done c2 i' j'"
    using prev pair_done_shape[OF s1] pair_done_shape[OF s2] N by simp
  from pairs_loop[OF loop _ _ _ prev2] i small cnt N
  have "same_shape c2 c" "\<forall>i'<Suc i. \<forall>j'<item_type_count c0. pair_done c i' j'"
    by simp_all
  then show ?thesis using s02 by (simp add: same_shape_def)
qed

lemma init_helper_pairs:
  assumes run: "init_helper c0 n = Some c"
    and small: "four_n c0 * four_n c0 \<le> 2 ^ 32"
    and cnt: "item_type_count c0 * item_type_count c0 < 2 ^ 32"
  shows "two_n c = two_n c0 \<and> four_n c = four_n c0 \<and> item_types c = item_types c0
       \<and> item_type_count c = item_type_count c0
       \<and> (\<forall>i<item_type_count c0. \<forall>j<item_type_count c0. pair_done c i j)"
proof -
  define N where "N = item_type_count c0"
  define s0 where "s0 = c0\<lparr>intensities := replicate (item_type_count c0) None,
          regenerations := replicate (item_type_count c0) None,
          interactions :=
            replicate ((item_type_count c0 * item_type_count c0) mod 2 ^ 32) None\<rparr>"
  define I where "I = (\<lambda>i c. same_shape s0 c \<and> (\<forall>i'<i. \<forall>j'<N. pair_done c i' j'))"
  have run': "for_loop [0..<N] init_item s0 = Some c"
    using run by (simp add: init_helper_def s0_def N_def)
  have s0: "item_type_count s0 = N" "four_n s0 = four_n c0" "two_n s0 = two_n c0"
    "item_types s0 = item_types c0"
    by (simp_all add: s0_def N_def)
  have "I N c"
  proof (rule for_loop_invariant[where I = I, OF run'])
    show "I 0 s0" by (simp add: I_def same_shape_def)
  next
    fix i t t'
    assume i: "i < N" and inv: "I i t" and body: "init_item i t = Some t'"
    have sh: "same_shape s0 t" using inv by (simp add: I_def)
    then have Nt: "item_type_count t = N" "four_n t = four_n c0"
      using s0 by (simp_all add: same_shape_def)
    have "same_shape t t' \<and> (\<forall>i'<Suc i. \<forall>j'<item_type_count t. pair_done t' i' j')"
      using init_item_step[OF body] i inv small cnt Nt by (simp add: I_def N_def)
    then show "I (Suc i) t'" using sh Nt by (simp add: I_def same_shape_def)
  qed
  then show ?thesis using s0 by (simp add: I_def same_shape_def N_def)
qed

lemma init_pairs:
  assumes run: "init its cnt n = Some c"
    and n: "n \<le> 16384"
    and cnt: "cnt < 65536"
  shows "two_n c = 2 * n \<and> four_n c = 4 * n \<and> item_types c = its \<and> item_type_count c = cnt
       \<and> (\<forall>i<cnt. \<forall>j<cnt. pair_done c i j)"
proof -
  have m: "(2 * n) mod 2 ^ 32 = 2 * n" "(4 * n) mod 2 ^ 32 = 4 * n" using n by simp_all
  have "4 * n * (4 * n) \<le> 4 * 16384 * (4 * 16384)" using n by (intro mult_le_mono) simp_all
  then have small: "4 * n * (4 * n) \<le> 2 ^ 32" by simp
  have "cnt * cnt \<le> 65535 * 65535" using cnt by (intro mult_le_mono) simp_all
  then have c2: "cnt * cnt < 2 ^ 32" by simp
  show ?thesis
    using init_helper_pairs[OF run[unfolded init_def]] m small c2 by simp
qed

lemma stationary_mirror:
  assumes "is_stationary f"
    and "pos_x (pos_sub p q) = - pos_x (pos_sub p' q')"
    and "pos_y (pos_sub p q) = - pos_y (pos_sub p' q')"
  shows "call_interaction f p q a = call_interaction f p' q' a"
  using assms
  by (cases f)
    (simp_all add: is_stationary_def zero_interaction_fn_def piecewise_box_interaction_fn_def
      cross_interaction_fn_def moore_interaction_fn_def squared_length_def Let_def
      cong: if_cong)

lemma pair_tableD:
  assumes pd: "pair_done c t1 t2"
    and st: "is_stationary (fn (interaction_fns (item_types c ! t1) ! t2))"
    and nc: "\<not> is_constant (fn (interaction_fns (item_types c ! t1) ! t2))"
  obtains tab where "interactions c ! (t1 * item_type_count c + t2) = Some tab"
    and "length tab = four_n c * four_n c"
    and "\<And>x y. x < four_n c \<Longrightarrow> y < four_n c \<Longrightarrow>
          tab ! (x * four_n c + y) = table_cell c (interaction_fns (item_types c ! t1) ! t2) x y"
  using assms by (auto simp: pair_done_def table_ok_def split: option.splits)

lemma wrap_free:
  fixes t1 :: nat
  assumes "t1 < cnt" "t2 < cnt" "cnt < 65536"
  shows "(t1 * cnt + t2) mod 2 ^ 32 = t1 * cnt + t2"
proof -
  have "t1 * cnt + t2 < cnt * cnt" using index_bound assms by simp
  also have "\<dots> \<le> 65535 * 65535" using assms(3) by (intro mult_le_mono) simp_all
  finally show ?thesis by simp
qed


lemma moore_cache_exists: "\<exists>c. init [moore_item] 1 1 = Some c"
  by (simp add: init_def init_helper_def init_item_def init_pair_def fill_table_def table_cell_def
    init_intensity_def init_regeneration_def
    moore_item_def nth_opt_def store_def is_constant_def is_stationary_def is_stationary_intensity_def
    is_stationary_regeneration_def is_time_independent_def constant_intensity_fn_def arg_def zero_regeneration_fn_def
    moore_interaction_fn_def pos_sub_def upt_rec)

subsection \<open>Interaction of a cell with itself\<close>

text \<open>
  Claim C7. In a cache built by \<^verbatim>\<open>init\<close> for at most 65535 item types and a
  patch size of at most 16384 (the sizes at which no \<^verbatim>\<open>unsigned int\<close> index
  wraps), \<^verbatim>\<open>interaction(p, p, t1, t2)\<close> returns 0 for every position and every
  pair of item types, on each path: the early return for a constant or
  non-stationary function, the range check of a build without \<^verbatim>\<open>NDEBUG\<close>,
  and the table, whose cell at offset \<open>(2n, 2n)\<close> holds 0. A build with
  \<^verbatim>\<open>NDEBUG\<close> needs a positive patch size, since its table is empty otherwise.
\<close>

theorem interaction_same_position_zero:
  assumes run: "init its cnt n = Some c"
    and t: "t1 < cnt" "t2 < cnt"
    and cnt: "cnt < 65536" and n: "n \<le> 16384" and dbg: "ndebug \<longrightarrow> 0 < n"
  shows "interaction ndebug c p p t1 t2 = Some 0"
proof -
  from init_pairs[OF run n cnt] t
  have sh: "two_n c = 2 * n" "four_n c = 4 * n" "item_type_count c = cnt"
    and pd: "pair_done c t1 t2" by simp_all
  define ef where "ef = interaction_fns (item_types c ! t1) ! t2"
  have rd: "nth_opt (item_types c) t1 = Some (item_types c ! t1)"
    "nth_opt (interaction_fns (item_types c ! t1)) t2 = Some ef"
    using pd by (simp_all add: pair_done_def nth_opt_def ef_def)
  show ?thesis
  proof (cases "is_constant (fn ef) \<or> \<not> is_stationary (fn ef)")
    case True
    then show ?thesis using rd by (simp add: interaction_def)
  next
    case False
    then have st: "is_stationary (fn ef)" "\<not> is_constant (fn ef)" by simp_all
    show ?thesis
    proof (cases "n = 0")
      case True
      then have "\<not> ndebug" using dbg by simp
      then show ?thesis using rd False True sh
        by (simp add: interaction_def pos_sub_def pos_add_def)
    next
      case npos: False
      from pair_tableD[OF pd st[unfolded ef_def]] obtain tab where
        tab: "interactions c ! (t1 * cnt + t2) = Some tab"
        and len: "length tab = 4 * n * (4 * n)"
        and cell: "\<And>x y. x < 4 * n \<Longrightarrow> y < 4 * n \<Longrightarrow> tab ! (x * (4 * n) + y) = table_cell c ef x y"
        unfolding sh ef_def by blast
      have k: "nth_opt (interactions c) ((t1 * cnt + t2) mod 2 ^ 32) = Some (Some tab)"
        using pd tab wrap_free[OF t cnt] by (simp add: pair_done_def nth_opt_def sh)
      have idx: "int (2 * n) * int (4 * n) + int (2 * n) = int (2 * n * (4 * n) + 2 * n)"
        by simp
      have inb: "2 * n * (4 * n) + 2 * n < length tab"
        unfolding len using index_bound[of "2 * n" "4 * n" "2 * n"] npos by simp
      have "read_float tab (int (2 * n) * int (4 * n) + int (2 * n)) = table_cell c ef (2 * n) (2 * n)"
        unfolding idx using inb cell[of "2 * n" "2 * n"] npos
        by (simp add: read_float_def del: of_nat_mult of_nat_add)
      also have "\<dots> = Some 0" by (simp add: table_cell_def sh)
      finally have rf: "read_float tab (int (2 * n) * int (4 * n) + int (2 * n)) = Some 0" .
      show ?thesis
        using rd False npos k rf
        by (simp add: interaction_def pos_sub_def pos_add_def sh Let_def del: of_nat_mult of_nat_add)
    qed
  qed
qed

theorem interaction_same_position_zero_witness:
  "\<exists>c. init [moore_item] 1 1 = Some c
     \<and> interaction True c (position 7 (- 3)) (position 7 (- 3)) 0 0 = Some 0
     \<and> interaction False c (position 7 (- 3)) (position 7 (- 3)) 0 0 = Some 0"
proof -
  obtain c where c: "init [moore_item] 1 1 = Some c" using moore_cache_exists by blast
  show ?thesis
    using c interaction_same_position_zero [OF c, of 0 0 True "position 7 (- 3)"]
      interaction_same_position_zero [OF c, of 0 0 False "position 7 (- 3)"]
    by simp
qed

subsection \<open>The table against the function\<close>

text \<open>
  Claim C3 as stated fails at the displacement zero. For the \<^verbatim>\<open>MOORE\<close>
  interaction and patch size 1, the entry for displacement \<open>(0, 0)\<close> is 0,
  while the function evaluated at two equal positions is 1.
\<close>

theorem table_entry_at_zero_counterexample:
  "entry_after_init [moore_item] 1 1 0 0 (position 0 0) = Some 0
   \<and> call_interaction P_moore_interaction_fn (position 3 3) (position 3 3) [] = Some 1"
proof -
  obtain c where c: "init [moore_item] 1 1 = Some c" using moore_cache_exists by blast
  from init_pairs[OF c]
  have sh: "two_n c = 2" "four_n c = 4" "item_type_count c = 1" "item_types c = [moore_item]"
    and pd: "pair_done c 0 0" by simp_all
  have f: "fn (interaction_fns (item_types c ! 0) ! 0) = P_moore_interaction_fn"
    by (simp add: moore_item_def sh)
  from pair_tableD[OF pd] f obtain tab where
    tab: "interactions c ! 0 = Some tab" "length tab = 16"
    and cell: "\<And>x y. x < 4 \<Longrightarrow> y < 4 \<Longrightarrow>
       tab ! (x * 4 + y) = table_cell c (interaction_fns (item_types c ! 0) ! 0) x y"
    by (auto simp: sh is_stationary_def is_constant_def)
  have "tab ! 10 = Some 0" using cell[of 2 2] by (simp add: table_cell_def sh)
  moreover have "0 < length (interactions c)" using pd by (simp add: pair_done_def)
  ultimately have "table_entry c 0 0 (position 0 0) = Some 0"
    using tab by (simp add: table_entry_def nth_opt_def sh pos_add_def read_float_def)
  then show ?thesis
    using c by (simp add: entry_after_init_def moore_interaction_fn_def pos_sub_def)
qed

text \<open>
  Two facts about the table of a pair of item types whose interaction function
  is stationary and not constant, in a cache built by \<^verbatim>\<open>init\<close>: the cell for
  the displacement zero, and the cells for every other displacement.
\<close>

lemma table_zero_cell:
  assumes run: "init its cnt n = Some c"
    and t: "t1 < cnt" "t2 < cnt" and cnt: "cnt < 65536" and n: "n \<le> 16384" and npos: "0 < n"
    and st: "is_stationary (fn (interaction_fns (its ! t1) ! t2))"
    and nc: "\<not> is_constant (fn (interaction_fns (its ! t1) ! t2))"
  shows "\<exists>tab. nth_opt (interactions c) (t1 * cnt + t2) = Some (Some tab)
            \<and> length tab = 4 * n * (4 * n)"
    and "table_entry c t1 t2 (position 0 0) = Some 0"
proof -
  from init_pairs[OF run n cnt] t
  have sh: "two_n c = 2 * n" "four_n c = 4 * n" "item_type_count c = cnt" "item_types c = its"
    and pd: "pair_done c t1 t2" by simp_all
  define ef where "ef = interaction_fns (its ! t1) ! t2"
  from pair_tableD[OF pd] st nc obtain tab where
    tab: "interactions c ! (t1 * cnt + t2) = Some tab"
    and len: "length tab = 4 * n * (4 * n)"
    and cell: "\<And>x y. x < 4 * n \<Longrightarrow> y < 4 * n \<Longrightarrow> tab ! (x * (4 * n) + y) = table_cell c ef x y"
    unfolding sh ef_def by blast
  have k: "nth_opt (interactions c) (t1 * cnt + t2) = Some (Some tab)"
    using pd tab by (simp add: pair_done_def nth_opt_def sh)
  show "\<exists>tab. nth_opt (interactions c) (t1 * cnt + t2) = Some (Some tab)
            \<and> length tab = 4 * n * (4 * n)"
    using k len by blast
  have idx: "int (2 * n) * int (4 * n) + int (2 * n) = int (2 * n * (4 * n) + 2 * n)"
    by simp
  have inb: "2 * n * (4 * n) + 2 * n < length tab"
    unfolding len using index_bound[of "2 * n" "4 * n" "2 * n"] npos by simp
  have "read_float tab (int (2 * n) * int (4 * n) + int (2 * n)) = table_cell c ef (2 * n) (2 * n)"
    unfolding idx using inb cell[of "2 * n" "2 * n"] npos
    by (simp add: read_float_def del: of_nat_mult of_nat_add)
  also have "\<dots> = Some 0" by (simp add: table_cell_def sh)
  finally have rf: "read_float tab (int (2 * n) * int (4 * n) + int (2 * n)) = Some 0" .
  show "table_entry c t1 t2 (position 0 0) = Some 0"
    using k rf
    by (simp add: table_entry_def sh pos_add_def Let_def del: of_nat_mult of_nat_add)
qed

lemma table_other_cells:
  assumes run: "init its cnt n = Some c"
    and t: "t1 < cnt" "t2 < cnt" and cnt: "cnt < 65536" and n: "n \<le> 16384"
    and st: "is_stationary (fn (interaction_fns (its ! t1) ! t2))"
    and nc: "\<not> is_constant (fn (interaction_fns (its ! t1) ! t2))"
    and ne: "p1 \<noteq> p2"
    and inx: "0 \<le> pos_x (pos_sub p1 p2) + 2 * int n" "pos_x (pos_sub p1 p2) + 2 * int n < 4 * int n"
    and iny: "0 \<le> pos_y (pos_sub p1 p2) + 2 * int n" "pos_y (pos_sub p1 p2) + 2 * int n < 4 * int n"
  shows "table_entry c t1 t2 (pos_sub p1 p2)
           = call_interaction (fn (interaction_fns (its ! t1) ! t2)) p1 p2
               (args (interaction_fns (its ! t1) ! t2))
       \<and> interaction ndebug c p1 p2 t1 t2
           = call_interaction (fn (interaction_fns (its ! t1) ! t2)) p1 p2
               (args (interaction_fns (its ! t1) ! t2))"
proof -
  from init_pairs[OF run n cnt] t
  have sh: "two_n c = 2 * n" "four_n c = 4 * n" "item_type_count c = cnt" "item_types c = its"
    and pd: "pair_done c t1 t2" by simp_all
  define ef where "ef = interaction_fns (its ! t1) ! t2"
  have rd: "nth_opt (item_types c) t1 = Some (its ! t1)"
    "nth_opt (interaction_fns (its ! t1)) t2 = Some ef"
    using pd by (simp_all add: pair_done_def nth_opt_def ef_def sh)
  from pair_tableD[OF pd] st nc obtain tab where
    tab: "interactions c ! (t1 * cnt + t2) = Some tab"
    and len: "length tab = 4 * n * (4 * n)"
    and cell: "\<And>x y. x < 4 * n \<Longrightarrow> y < 4 * n \<Longrightarrow> tab ! (x * (4 * n) + y) = table_cell c ef x y"
    unfolding sh ef_def by blast
  have k: "nth_opt (interactions c) (t1 * cnt + t2) = Some (Some tab)"
    using pd tab by (simp add: pair_done_def nth_opt_def sh)
  define dx where "dx = pos_x (pos_sub p1 p2)"
  define dy where "dy = pos_y (pos_sub p1 p2)"
  define x where "x = nat (dx + 2 * int n)"
  define y where "y = nat (dy + 2 * int n)"
  have xy: "x < 4 * n" "y < 4 * n" "int x = dx + 2 * int n" "int y = dy + 2 * int n"
    using inx iny by (simp_all add: x_def y_def dx_def dy_def)
  have d0: "\<not> (dx = 0 \<and> dy = 0)"
    using ne by (cases p1; cases p2) (auto simp: dx_def dy_def pos_sub_def)
  then have off: "\<not> (x = 2 * n \<and> y = 2 * n)" using xy by auto
  have idx: "(dx + 2 * int n) * int (4 * n) + (dy + 2 * int n) = int (x * (4 * n) + y)"
    using xy by simp
  have inb: "x * (4 * n) + y < length tab"
    unfolding len using index_bound[of x "4 * n" y] xy by simp
  have "read_float tab ((dx + 2 * int n) * int (4 * n) + (dy + 2 * int n)) = table_cell c ef x y"
    unfolding idx using inb cell[OF xy(1,2)]
    by (simp add: read_float_def del: of_nat_mult of_nat_add)
  also have "\<dots> = call_interaction (fn ef) (position (int (2 * n)) (int (2 * n)))
      (position (int x) (int y)) (args ef)"
    using off by (auto simp: table_cell_def sh)
  also have "\<dots> = call_interaction (fn ef) p1 p2 (args ef)"
    by (rule stationary_mirror) (use st xy in \<open>simp_all add: ef_def pos_sub_def dx_def dy_def\<close>)
  finally have rf: "read_float tab ((dx + 2 * int n) * int (4 * n) + (dy + 2 * int n))
      = call_interaction (fn ef) p1 p2 (args ef)" .
  have h: "int (2 * n) = 2 * int n" by simp
  have a: "table_entry c t1 t2 (pos_sub p1 p2) = call_interaction (fn ef) p1 p2 (args ef)"
    using k rf
    by (simp add: table_entry_def sh pos_add_def dx_def dy_def Let_def h
        del: of_nat_mult of_nat_add)
  have k': "nth_opt (interactions c) ((t1 * cnt + t2) mod 2 ^ 32) = Some (Some tab)"
    using k wrap_free[OF t cnt] by simp
  have rng: "\<not> (dx + 2 * int n < 0 \<or> int (4 * n) \<le> dx + 2 * int n
      \<or> dy + 2 * int n < 0 \<or> int (4 * n) \<le> dy + 2 * int n)"
    using inx iny by (simp add: dx_def dy_def)
  have b: "interaction ndebug c p1 p2 t1 t2 = call_interaction (fn ef) p1 p2 (args ef)"
    using rd st nc k' rf rng
    by (simp add: interaction_def sh pos_add_def dx_def dy_def Let_def ef_def h
        del: of_nat_mult of_nat_add)
  show ?thesis using a b by (simp add: ef_def)
qed

text \<open>
  Claim C3, amended. In a cache built by \<^verbatim>\<open>init\<close> for a patch size \<open>n\<close> with
  \<open>1 \<le> n \<le> 16384\<close> and at most 65535 item types (the sizes at which no
  \<^verbatim>\<open>unsigned int\<close> index wraps), every pair of item types whose interaction
  function is stationary and not constant has a table of \<open>4n \<times> 4n\<close> cells.
  The entry for the displacement zero is 0, whatever the function returns at
  two equal positions. For every two positions with a nonzero displacement
  whose shifted displacement lies inside the table, the entry for that
  displacement equals the function evaluated at the two positions, and so
  does \<^verbatim>\<open>interaction(p1, p2, t1, t2)\<close>, in both build modes.
\<close>

theorem table_lookup_agrees:
  assumes run: "init its cnt n = Some c"
    and t: "t1 < cnt" "t2 < cnt" and cnt: "cnt < 65536" and n: "n \<le> 16384" and npos: "0 < n"
    and st: "is_stationary (fn (interaction_fns (its ! t1) ! t2))"
    and nc: "\<not> is_constant (fn (interaction_fns (its ! t1) ! t2))"
  shows "(\<exists>tab. nth_opt (interactions c) (t1 * cnt + t2) = Some (Some tab)
            \<and> length tab = 4 * n * (4 * n))
       \<and> table_entry c t1 t2 (position 0 0) = Some 0
       \<and> (\<forall>p1 p2 ndebug.
            p1 \<noteq> p2
            \<and> 0 \<le> pos_x (pos_sub p1 p2) + 2 * int n \<and> pos_x (pos_sub p1 p2) + 2 * int n < 4 * int n
            \<and> 0 \<le> pos_y (pos_sub p1 p2) + 2 * int n \<and> pos_y (pos_sub p1 p2) + 2 * int n < 4 * int n
            \<longrightarrow> table_entry c t1 t2 (pos_sub p1 p2)
                  = call_interaction (fn (interaction_fns (its ! t1) ! t2)) p1 p2
                      (args (interaction_fns (its ! t1) ! t2))
                \<and> interaction ndebug c p1 p2 t1 t2
                  = call_interaction (fn (interaction_fns (its ! t1) ! t2)) p1 p2
                      (args (interaction_fns (its ! t1) ! t2)))"
proof (intro conjI allI impI)
  show "\<exists>tab. nth_opt (interactions c) (t1 * cnt + t2) = Some (Some tab)
            \<and> length tab = 4 * n * (4 * n)"
    by (rule table_zero_cell(1)[OF run t cnt n npos st nc])
  show "table_entry c t1 t2 (position 0 0) = Some 0"
    by (rule table_zero_cell(2)[OF run t cnt n npos st nc])
next
  fix p1 p2 ndebug
  assume h: "p1 \<noteq> p2
            \<and> 0 \<le> pos_x (pos_sub p1 p2) + 2 * int n \<and> pos_x (pos_sub p1 p2) + 2 * int n < 4 * int n
            \<and> 0 \<le> pos_y (pos_sub p1 p2) + 2 * int n \<and> pos_y (pos_sub p1 p2) + 2 * int n < 4 * int n"
  from h table_other_cells[OF run t cnt n st nc, of p1 p2 ndebug]
  show "table_entry c t1 t2 (pos_sub p1 p2)
                  = call_interaction (fn (interaction_fns (its ! t1) ! t2)) p1 p2
                      (args (interaction_fns (its ! t1) ! t2))" by blast
next
  fix p1 p2 ndebug
  assume h: "p1 \<noteq> p2
            \<and> 0 \<le> pos_x (pos_sub p1 p2) + 2 * int n \<and> pos_x (pos_sub p1 p2) + 2 * int n < 4 * int n
            \<and> 0 \<le> pos_y (pos_sub p1 p2) + 2 * int n \<and> pos_y (pos_sub p1 p2) + 2 * int n < 4 * int n"
  from h table_other_cells[OF run t cnt n st nc, of p1 p2 ndebug]
  show "interaction ndebug c p1 p2 t1 t2
                  = call_interaction (fn (interaction_fns (its ! t1) ! t2)) p1 p2
                      (args (interaction_fns (its ! t1) ! t2))" by blast
qed

theorem table_lookup_agrees_witness:
  "\<exists>c. init [moore_item] 1 1 = Some c
     \<and> table_entry c 0 0 (position 0 0) = Some 0
     \<and> table_entry c 0 0 (pos_sub (position 5 5) (position 6 5)) = Some 1
     \<and> interaction True c (position 5 5) (position 6 5) 0 0 = Some 1
     \<and> interaction False c (position 5 5) (position 6 5) 0 0 = Some 1"
proof -
  obtain c where c: "init [moore_item] 1 1 = Some c" using moore_cache_exists by blast
  have f: "interaction_fns moore_item ! 0 = \<lparr>fn = P_moore_interaction_fn, args = []\<rparr>"
    by (simp add: moore_item_def)
  have th: "table_entry c 0 0 (position 0 0) = Some 0
     \<and> (\<forall>p1 p2 ndebug.
            p1 \<noteq> p2
            \<and> 0 \<le> pos_x (pos_sub p1 p2) + 2 \<and> pos_x (pos_sub p1 p2) + 2 < 4
            \<and> 0 \<le> pos_y (pos_sub p1 p2) + 2 \<and> pos_y (pos_sub p1 p2) + 2 < 4
            \<longrightarrow> table_entry c 0 0 (pos_sub p1 p2) = call_interaction P_moore_interaction_fn p1 p2 []
                \<and> interaction ndebug c p1 p2 0 0 = call_interaction P_moore_interaction_fn p1 p2 [])"
    using table_lookup_agrees [OF c, of 0 0]
    by (simp add: f is_stationary_def is_constant_def)
  have g: "call_interaction P_moore_interaction_fn (position 5 5) (position 6 5) [] = Some 1"
    by (simp add: moore_interaction_fn_def pos_sub_def)
  have pre: "position 5 5 \<noteq> position 6 5
            \<and> 0 \<le> pos_x (pos_sub (position 5 5) (position 6 5)) + 2
            \<and> pos_x (pos_sub (position 5 5) (position 6 5)) + 2 < 4
            \<and> 0 \<le> pos_y (pos_sub (position 5 5) (position 6 5)) + 2
            \<and> pos_y (pos_sub (position 5 5) (position 6 5)) + 2 < 4"
    by (simp add: pos_sub_def)
  from th have z: "table_entry c 0 0 (position 0 0) = Some 0" by blast
  from th pre have a: "table_entry c 0 0 (pos_sub (position 5 5) (position 6 5))
      = call_interaction P_moore_interaction_fn (position 5 5) (position 6 5) []"
    by blast
  from th pre have b: "\<And>ndebug. interaction ndebug c (position 5 5) (position 6 5) 0 0
      = call_interaction P_moore_interaction_fn (position 5 5) (position 6 5) []"
    by blast
  show ?thesis using c z a b g by simp
qed
section \<open>Properties of \<^verbatim>\<open>shuffle\<close>\<close>

lemma swap_mset:
  "swap array j i = Some array' \<Longrightarrow> mset array' = mset array \<and> length array' = length array"
  by (auto simp: swap_def mset_swap split: if_splits)

lemma shuffle_loop_permutes:
  "i < length array \<Longrightarrow> i < 2 ^ 32 - 1 \<Longrightarrow>
   \<exists>ys g'. shuffle_loop rng array i g = Some (ys, g') \<and> mset ys = mset array
      \<and> length ys = length array"
proof (induction rng array i g rule: shuffle_loop.induct)
  case (1 rng array i g)
  show ?case
  proof (cases "i > 0")
    case False
    then show ?thesis by simp
  next
    case pos: True
    obtain r g' where rg: "rng g = (r, g')" by (cases "rng g")
    have nz: "(i + 1) mod 2 ^ 32 \<noteq> 0" using "1.prems" by simp
    have md: "(i + 1) mod 2 ^ 32 = i + 1" using "1.prems" by simp
    define nxt where "nxt = r mod ((i + 1) mod 2 ^ 32)"
    have nxt_le: "nxt \<le> i" unfolding nxt_def md
      by (metis Suc_eq_plus1 less_Suc_eq_le mod_less_divisor zero_less_Suc)
    show ?thesis
    proof (cases "nxt = i")
      case True
      have "\<exists>ys g''. shuffle_loop rng array (i - 1) g' = Some (ys, g'') \<and> mset ys = mset array
          \<and> length ys = length array"
        using "1.IH"(2)[OF pos nz rg[symmetric] refl nxt_def] True "1.prems" by simp
      then show ?thesis
        using pos nz rg True nxt_def by (simp add: Let_def)
    next
      case False
      have "nxt < length array" "i < length array"
        using nxt_le "1.prems" by auto
      then obtain array' where sw: "swap array nxt i = Some array'"
        by (simp add: swap_def)
      then have pr: "mset array' = mset array" "length array' = length array"
        using swap_mset by blast+
      have "\<exists>ys g''. shuffle_loop rng array' (i - 1) g' = Some (ys, g'') \<and> mset ys = mset array'
          \<and> length ys = length array'"
        using "1.IH"(1)[OF pos nz rg[symmetric] refl nxt_def False sw] "1.prems" pr by simp
      then show ?thesis
        using pos nz rg False nxt_def sw pr by (simp add: Let_def)
    qed
  qed
qed

text \<open>
  Claim C10. For every array, every count \<open>len\<close> with \<open>1 \<le> len\<close> that does
  not exceed the array (and fits \<^verbatim>\<open>unsigned int\<close>), and every generator,
  \<^verbatim>\<open>shuffle\<close> returns (the recursion is total and no access is out of
  bounds), and the returned array is a permutation of the input: same
  multiset of elements, same length. This holds in both build modes.
\<close>

theorem shuffle_permutes:
  assumes "1 \<le> len" and "len \<le> length array" and "len \<le> UINT_MAX"
  shows "\<exists>ys g'. shuffle ndebug rng array len g = Some (ys, g')
           \<and> mset ys = mset array \<and> length ys = length array"
proof -
  have "(len + UINT_MAX) mod 2 ^ 32 = len - 1"
  proof -
    have "len + UINT_MAX = (len - 1) + 2 ^ 32" using assms(1) by (simp add: UINT_MAX_def)
    moreover have "len - 1 < (2::nat) ^ 32" using assms(3) by (simp add: UINT_MAX_def)
    ultimately show ?thesis by simp
  qed
  moreover have "len - 1 < length array" "len - 1 < 2 ^ 32 - 1"
    using assms by (auto simp: UINT_MAX_def)
  ultimately show ?thesis
    using shuffle_loop_permutes[of "len - 1" array rng g] assms(1)
    by (simp add: shuffle_def)
qed

theorem shuffle_permutes_witness:
  "\<exists>ys g'. shuffle False lcg [10, 20, 30, 40 :: nat] 4 (7 :: nat) = Some (ys, g')
           \<and> mset ys = mset [10, 20, 30, 40] \<and> length ys = length [10, 20, 30, 40 :: nat]"
  using shuffle_permutes [of 4 "[10, 20, 30, 40 :: nat]" False lcg 7]
  by (simp add: UINT_MAX_def)

section \<open>Properties of the sampler\<close>

subsection \<open>The loops over the neighborhood\<close>






subsection \<open>The quadrant, the draws and the acceptance test\<close>



lemma pos_sub_pos_add [simp]: "pos_sub (pos_add offset cell) offset = cell"
  by (cases offset; cases cell) (simp add: pos_sub_def pos_add_def)






subsection \<open>The inputs\<close>

lemma four_cache_init: "init [four_item] 1 4 = Some four_cache"
  by (simp add: init_def init_helper_def init_item_def init_pair_def
    init_intensity_def init_regeneration_def four_cache_def
    four_item_def nth_opt_def store_def is_constant_def is_stationary_def is_stationary_intensity_def
    is_stationary_regeneration_def is_time_independent_def constant_intensity_fn_def arg_def
    zero_regeneration_fn_def)










subsection \<open>The birth move\<close>



subsection \<open>The death move\<close>


section \<open>Properties of the Python binding\<close>

subsection \<open>Agent states\<close>





subsection \<open>Saving and loading\<close>

lemma length_le_bytes [simp]: "length (le_bytes k v) = k"
  by (induction k arbitrary: v) simp_all

lemma le_value_le_bytes: "le_value (le_bytes k v) = v mod 256 ^ k"
proof (induction k arbitrary: v)
  case 0
  then show ?case by simp
next
  case (Suc k)
  have "unat (word_of_nat (v mod 256) :: 8 word) = v mod 256"
    by (simp add: unat_of_nat)
  then have "le_value (le_bytes (Suc k) v) = v mod 256 + 256 * ((v div 256) mod 256 ^ k)"
    using Suc.IH by simp
  also have "\<dots> = v mod 256 ^ Suc k"
    by (simp add: mod_mult2_eq)
  finally show ?case .
qed

lemma read_write_u64:
  assumes "v < 2 ^ 64"
  shows "read_u64 (write_u64 v @ rest) = Some (v, rest)"
proof -
  have "(256::nat) ^ 8 = 2 ^ 64" by simp
  then have "v mod 256 ^ 8 = v" using assms by simp
  then show ?thesis
    by (simp add: read_u64_def write_u64_def le_value_le_bytes del: le_bytes.simps)
qed

lemma read_write_array:
  assumes "\<forall>x\<in>set xs. x < 2 ^ 64"
  shows "read_array (length xs) (write_array xs @ rest) = Some (xs, rest)"
  using assms
proof (induction xs)
  case Nil
  then show ?case by (simp add: write_array_def)
next
  case (Cons x xs)
  have "write_array (x # xs) @ rest = write_u64 x @ (write_array xs @ rest)"
    by (simp add: write_array_def)
  then show ?case
    using Cons read_write_u64[of x "write_array xs @ rest"] by simp
qed

text \<open>
  The framing that \<^verbatim>\<open>simulator_save\<close> puts around the two writers:
  \<^verbatim>\<open>simulator_load\<close> reads back the two lists of identifiers as they were
  saved, and when the two pairs of writer and reader re-encode, a second save
  gives the bytes of the first. This says nothing about the writers and
  readers themselves.
\<close>

lemma save_load_framing:
  assumes sim_codec: "reencodes write_sim read_sim"
    and state_codec: "reencodes write_state read_state"
    and bounds: "length (agent_ids data) < 2 ^ 64" "\<forall>a\<in>set (agent_ids data). a < 2 ^ 64"
      "length (semaphore_ids data) < 2 ^ 64" "\<forall>a\<in>set (semaphore_ids data). a < 2 ^ 64"
  shows "\<exists>sim' data'.
      simulator_load read_sim read_state (simulator_save write_sim write_state sim data)
        = Some (sim', data')
      \<and> agent_ids data' = agent_ids data \<and> semaphore_ids data' = semaphore_ids data
      \<and> simulator_save write_sim write_state sim' data'
        = simulator_save write_sim write_state sim data"
proof -
  define r1 where "r1 = write_u64 (length (agent_ids data)) @ write_array (agent_ids data)
     @ write_u64 (length (semaphore_ids data)) @ write_array (semaphore_ids data)
     @ write_state (server_state data)"
  define r3 where "r3 = write_u64 (length (semaphore_ids data)) @ write_array (semaphore_ids data)
     @ write_state (server_state data)"
  from sim_codec obtain sim' where
    s1: "read_sim (write_sim sim @ r1) = Some (sim', r1)" and s2: "write_sim sim' = write_sim sim"
    unfolding reencodes_def by blast
  from state_codec obtain st' where
    t1: "read_state (write_state (server_state data) @ []) = Some (st', [])"
    and t2: "write_state st' = write_state (server_state data)"
    unfolding reencodes_def by blast
  have a1: "read_u64 r1 = Some (length (agent_ids data), write_array (agent_ids data) @ r3)"
    unfolding r1_def r3_def using read_write_u64[OF bounds(1)] by simp
  have a2: "read_array (length (agent_ids data)) (write_array (agent_ids data) @ r3)
      = Some (agent_ids data, r3)"
    using read_write_array[OF bounds(2)] by simp
  have b1: "read_u64 r3 = Some (length (semaphore_ids data),
      write_array (semaphore_ids data) @ write_state (server_state data))"
    unfolding r3_def using read_write_u64[OF bounds(3)] by simp
  have b2: "read_array (length (semaphore_ids data))
      (write_array (semaphore_ids data) @ write_state (server_state data))
      = Some (semaphore_ids data, write_state (server_state data))"
    using read_write_array[OF bounds(4)] by simp
  define data' where "data' = \<lparr>agent_ids = agent_ids data,
      semaphore_ids = semaphore_ids data, server_state = st'\<rparr>"
  have "simulator_save write_sim write_state sim data = write_sim sim @ r1"
    by (simp add: simulator_save_def r1_def)
  then have ld: "simulator_load read_sim read_state (simulator_save write_sim write_state sim data)
      = Some (sim', data')"
    using s1 a1 a2 b1 b2 t1 by (simp add: simulator_load_def data'_def)
  have sv: "simulator_save write_sim write_state sim' data'
      = simulator_save write_sim write_state sim data"
    using s2 t2 by (simp add: simulator_save_def data'_def)
  show ?thesis using ld sv by (auto simp: data'_def)
qed
end
